theory Spec2Isabelle
  imports Complex_Main "HOL-Library.Multiset"
begin

section \<open>GBRegOD: a sliding-window regression outlier detector\<close>

text \<open>
  A shallow embedding of \<^verbatim>\<open>tods/detection_algorithm/core/GBRegOD.py\<close>. The class
  \<^verbatim>\<open>GBRegOD\<close> has three methods, \<^verbatim>\<open>fit\<close>, \<^verbatim>\<open>decision_function\<close> and
  \<^verbatim>\<open>predict\<close>; each is modelled as a function from the detector (the object's
  attributes, a record) and the input to an outcome and the detector afterwards, so that
  an attribute assigned before an exception is raised stays assigned, as in Python.

  Samples are real numbers (the code uses 64-bit floats; rounding is not modelled).
  A two-dimensional array is the list of its rows.
\<close>

subsection \<open>Exceptions\<close>

text \<open>
  \<^verbatim>\<open>ValueError\<close>, \<^verbatim>\<open>IndexError\<close> and \<^verbatim>\<open>AttributeError\<close> are Python's;
  \<^verbatim>\<open>NotFittedError\<close> is scikit-learn's. \<open>InvalidInputError\<close> and
  \<open>ConfigurationError\<close> are the names the specification gives to the failures of the
  parts that are modelled from it.
\<close>

datatype error =
    ValueError
  | IndexError
  | AttributeError
  | NotFittedError
  | InvalidInputError
  | ConfigurationError

subsection \<open>The array operations the methods use\<close>

text \<open>\<^verbatim>\<open>X[k]\<close> on the first axis: a negative index counts from the end, an index out
  of range raises \<^verbatim>\<open>IndexError\<close>.\<close>

definition row_at :: "'a list \<Rightarrow> int \<Rightarrow> error + 'a" where
  "row_at X k =
     (let n = int (length X); j = (if k < 0 then n + k else k)
      in if 0 \<le> j \<and> j < n then Inr (X ! nat j) else Inl IndexError)"

text \<open>\<^verbatim>\<open>y_buf[i] = row\<close> where \<^verbatim>\<open>y_buf\<close> has shape \<open>(n, 1)\<close>: the slot
  \<^verbatim>\<open>y_buf[i]\<close> has shape \<open>(1,)\<close>, and a row of \<open>F\<close> values is broadcast into it
  only when \<open>F = 1\<close>; otherwise numpy raises \<^verbatim>\<open>ValueError\<close>. The value stored is
  returned.\<close>

definition assign_scalar :: "real list \<Rightarrow> error + real" where
  "assign_scalar row = (case row of [v] \<Rightarrow> Inr v | _ \<Rightarrow> Inl ValueError)"

text \<open>The loop \<^verbatim>\<open>for i in range(valid_len): y_buf[i] = X[i * step_size + window_size]\<close>
  of \<^verbatim>\<open>fit\<close> (lines 93-94) and \<^verbatim>\<open>decision_function\<close> (lines 169-170), over the
  list of the indices still to visit.\<close>

fun build_targets :: "real list list \<Rightarrow> int \<Rightarrow> int \<Rightarrow> nat list \<Rightarrow> real list \<Rightarrow> error + real list" where
  "build_targets X S W [] y_buf = Inr y_buf"
| "build_targets X S W (i # rest) y_buf =
     (case row_at X (int i * S + W) of
        Inl e \<Rightarrow> Inl e
      | Inr row \<Rightarrow>
          (case assign_scalar row of
             Inl e \<Rightarrow> Inl e
           | Inr v \<Rightarrow> build_targets X S W rest (y_buf[i := v])))"

text \<open>\<^verbatim>\<open>y_buf = np.zeros([valid_len, 1])\<close> followed by the loop.\<close>

definition target_vector :: "real list list \<Rightarrow> int \<Rightarrow> int \<Rightarrow> nat \<Rightarrow> error + real list" where
  "target_vector X S W n = build_targets X S W [0..<n] (replicate n 0)"

text \<open>\<^verbatim>\<open>np.absolute(a.ravel() - b.ravel())\<close> on one-dimensional arrays: equal lengths
  subtract pointwise, an array of length one is broadcast against the other, any other
  pair of lengths raises \<^verbatim>\<open>ValueError\<close>.\<close>

definition abs_residuals :: "real list \<Rightarrow> real list \<Rightarrow> error + real list" where
  "abs_residuals a b =
     (if length a = length b then Inr (map2 (\<lambda>y p. \<bar>y - p\<bar>) a b)
      else if length b = 1 then Inr (map (\<lambda>y. \<bar>y - hd b\<bar>) a)
      else if length a = 1 then Inr (map (\<lambda>p. \<bar>hd a - p\<bar>) b)
      else Inl ValueError)"

text \<open>\<^verbatim>\<open>np.zeros((n,))\<close>: a negative dimension raises \<^verbatim>\<open>ValueError\<close>.\<close>

definition np_zeros :: "int \<Rightarrow> error + real list" where
  "np_zeros n = (if n < 0 then Inl ValueError else Inr (replicate (nat n) 0))"

text \<open>\<^verbatim>\<open>(scores > t).astype('int')\<close>.\<close>

definition binarize :: "real \<Rightarrow> real list \<Rightarrow> int list" where
  "binarize t scores = map (\<lambda>s. if s > t then 1 else 0) scores"

text \<open>The number of scores that exceed a threshold, \<^verbatim>\<open>count(score > t)\<close>.\<close>

definition count_above :: "real \<Rightarrow> real list \<Rightarrow> nat" where
  "count_above t scores = length (filter (\<lambda>s. s > t) scores)"

subsection \<open>The regressor\<close>

text \<open>
  \<^verbatim>\<open>sklearn.ensemble.GradientBoostingRegressor\<close> is a library class, not code of this
  repository. The detector uses three things of it: the constructor, \<^verbatim>\<open>fit\<close> and
  \<^verbatim>\<open>predict\<close>. They are a parameter of the model: \<open>'m\<close> is the state of the
  estimator object, \<open>gbr_init\<close> the object as constructed, \<open>gbr_fit\<close> the object
  after a successful fit, \<open>gbr_predict\<close> its predictions (a query: it returns no new
  state). Either call may raise. An estimator whose \<open>fit\<close> raises is taken to be left
  as it was.
\<close>

record 'm regressor =
  gbr_init :: "'m"
  gbr_fit :: "'m \<Rightarrow> real list list \<Rightarrow> real list \<Rightarrow> error + 'm"
  gbr_predict :: "'m \<Rightarrow> real list list \<Rightarrow> error + real list"

text \<open>The library's contract on shapes: \<^verbatim>\<open>predict\<close> returns one value per row.\<close>

definition one_per_row :: "'m regressor \<Rightarrow> bool" where
  "one_per_row L = (\<forall>m X p. gbr_predict L m X = Inr p \<longrightarrow> length p = length X)"

text \<open>
  A regressor to run the model on: boosting with no stages, which predicts the mean of
  the training targets. Like every scikit-learn estimator it validates its input first
  (at least one sample, \<^verbatim>\<open>ValueError\<close> otherwise) and its \<^verbatim>\<open>predict\<close> raises
  \<^verbatim>\<open>NotFittedError\<close> on an estimator that was not fitted.
\<close>

definition mean_regressor :: "(real option) regressor" where
  "mean_regressor =
     \<lparr> gbr_init = None,
       gbr_fit = (\<lambda>m X y. if X = [] then Inl ValueError
                          else Inr (Some (sum_list y / real (length y)))),
       gbr_predict = (\<lambda>m X. if X = [] then Inl ValueError
                            else (case m of None \<Rightarrow> Inl NotFittedError
                                  | Some v \<Rightarrow> Inr (replicate (length X) v))) \<rparr>"

subsection \<open>The detector\<close>

text \<open>The attributes of a \<^verbatim>\<open>GBRegOD\<close> object. An attribute that is not set (or is
  \<^verbatim>\<open>None\<close>) is \<open>None\<close>. The attributes that \<^verbatim>\<open>fit\<close> sets end in an underscore
  in the source (\<^verbatim>\<open>left_inds_\<close>, \<^verbatim>\<open>threshold_\<close>, ...); the field names here
  leave it out.\<close>

record 'm detector =
  contamination :: real
  window_size :: int
  step_size :: int
  left_inds :: "int list option"
  right_inds :: "int list option"
  valid_len :: "nat option"
  gbr :: "'m option"
  decision_scores :: "real list option"
  threshold :: "real option"
  labels :: "int list option"

text \<open>
  Modelled from the spec: the constructor of the base class
  \<^verbatim>\<open>CollectiveBaseDetector\<close> (\<^verbatim>\<open>CollectiveBase.py\<close> is not among the sources).
  The specification has the contamination validated at construction: a value outside the
  open interval \<open>(0, 0.5)\<close> is a \<open>ConfigurationError\<close>. \<^verbatim>\<open>GBRegOD.__init__\<close>
  passes it the contamination only, so the base class sees its own defaults
  \<open>window_size = 1\<close> and \<open>step_size = 1\<close>.
\<close>

definition CollectiveBaseDetector_init :: "real \<Rightarrow> error + 'm detector" where
  "CollectiveBaseDetector_init c =
     (if 0 < c \<and> c < 1 / 2
      then Inr \<lparr> contamination = c, window_size = 1, step_size = 1,
                 left_inds = None, right_inds = None, valid_len = None, gbr = None,
                 decision_scores = None, threshold = None, labels = None \<rparr>
      else Inl ConfigurationError)"

text \<open>\<^verbatim>\<open>GBRegOD.__init__(self, window_size, step_size=1, contamination=0.1)\<close>, lines
  54-57.\<close>

definition GBRegOD_init :: "int \<Rightarrow> int \<Rightarrow> real \<Rightarrow> error + 'm detector" where
  "GBRegOD_init w s c =
     (case CollectiveBaseDetector_init c of
        Inl e \<Rightarrow> Inl e
      | Inr self \<Rightarrow> Inr (self\<lparr>window_size := w, step_size := s\<rparr>))"

text \<open>
  \<^verbatim>\<open>sklearn.utils.check_array\<close>, as the specification describes its use in \<^verbatim>\<open>fit\<close>:
  the input must be a well-formed two-dimensional numeric array. With rows of reals
  that leaves: at least one row, no empty row, and all rows of one length.
\<close>

definition check_array :: "real list list \<Rightarrow> error + real list list" where
  "check_array X =
     (if X \<noteq> [] \<and> hd X \<noteq> [] \<and> list_all (\<lambda>r. length r = length (hd X)) X
      then Inr X else Inl InvalidInputError)"

text \<open>
  Modelled from the spec: \<^verbatim>\<open>get_sub_matrices\<close> of \<^verbatim>\<open>utility.py\<close>, which is not
  among the sources (the Windowing Engine of the specification, before the trim, with
  \<open>flatten = true\<close>). For a sequence of \<open>N\<close> rows it fails with \<open>InvalidInputError\<close>
  when \<open>N < W\<close>; otherwise it produces \<open>floor ((N - W) / S) + 1\<close> windows, window
  \<open>i\<close> being the flattened rows \<open>i * S\<close> up to \<open>i * S + W\<close>, with
  \<open>left_inds[i] = i * S\<close> and \<open>right_inds[i] = i * S + W\<close>.
\<close>

definition get_sub_matrices ::
  "real list list \<Rightarrow> int \<Rightarrow> int \<Rightarrow> error + (real list list \<times> int list \<times> int list)" where
  "get_sub_matrices X W S =
     (let N = int (length X) in
      if N < W then Inl InvalidInputError
      else
        let idx = [0..<nat ((N - W) div S + 1)] in
        Inr (map (\<lambda>i. concat (take (nat W) (drop (nat (int i * S)) X))) idx,
             map (\<lambda>i. int i * S) idx,
             map (\<lambda>i. int i * S + W) idx))"

text \<open>
  Modelled from the spec: the Thresholding/Labeling Layer, \<^verbatim>\<open>_process_decision_scores\<close>
  of the base class, which is not among the sources. The threshold is the
  \<open>(1 - c)\<close> quantile of the scores by a full sort: the element of the sorted scores
  that has \<open>floor (len(S) * c)\<close> positions above it. A label is 1 where the score
  is strictly greater than the threshold. The specification leaves open what happens on
  an empty score vector; here it is an \<open>InvalidInputError\<close>.
\<close>

definition quantile_threshold :: "real list \<Rightarrow> real \<Rightarrow> error + real" where
  "quantile_threshold scores c =
     (if scores = [] then Inl InvalidInputError
      else Inr (sort scores ! (length scores - 1 - nat \<lfloor>real (length scores) * c\<rfloor>)))"

definition process_decision_scores :: "'m detector \<Rightarrow> (error + unit) \<times> 'm detector" where
  "process_decision_scores self =
     (case decision_scores self of
        None \<Rightarrow> (Inl AttributeError, self)
      | Some scores \<Rightarrow>
          (case quantile_threshold scores (contamination self) of
             Inl e \<Rightarrow> (Inl e, self)
           | Inr t \<Rightarrow>
               (Inr (), self\<lparr>threshold := Some t, labels := Some (binarize t scores)\<rparr>)))"

text \<open>
  \<^verbatim>\<open>fit\<close>, lines 75-104. The attributes are assigned in the order of the source:
  the index arrays at line 78 and again, trimmed, at lines 86-87; \<^verbatim>\<open>valid_len_\<close> at
  line 89; \<^verbatim>\<open>gbr_\<close> at line 98, before the regressor is fitted;
  \<^verbatim>\<open>decision_scores_\<close> at line 100; the threshold and the labels at line 103.
\<close>

definition fit :: "'m regressor \<Rightarrow> 'm detector \<Rightarrow> real list list \<Rightarrow> (error + unit) \<times> 'm detector" where
  "fit L self X0 =
     (case check_array X0 of
        Inl e \<Rightarrow> (Inl e, self)
      | Inr X \<Rightarrow>
     (case get_sub_matrices X (window_size self) (step_size self) of
        Inl e \<Rightarrow> (Inl e, self)
      | Inr (subs, lefts, rights) \<Rightarrow>
          let sub_matrices = butlast subs;
              self1 = self\<lparr>left_inds := Some (butlast lefts),
                          right_inds := Some (butlast rights)\<rparr>;
              n = length sub_matrices;
              self2 = self1\<lparr>valid_len := Some n\<rparr>
          in
     (case target_vector X (step_size self2) (window_size self2) n of
        Inl e \<Rightarrow> (Inl e, self2)
      | Inr y_buf \<Rightarrow>
          let self3 = self2\<lparr>gbr := Some (gbr_init L)\<rparr> in
     (case gbr_fit L (gbr_init L) sub_matrices y_buf of
        Inl e \<Rightarrow> (Inl e, self3)
      | Inr m \<Rightarrow>
          let self4 = self3\<lparr>gbr := Some m\<rparr> in
     (case gbr_predict L m sub_matrices of
        Inl e \<Rightarrow> (Inl e, self4)
      | Inr p \<Rightarrow>
     (case abs_residuals y_buf p of
        Inl e \<Rightarrow> (Inl e, self4)
      | Inr scores \<Rightarrow>
          process_decision_scores (self4\<lparr>decision_scores := Some scores\<rparr>)))))))"

text \<open>
  \<^verbatim>\<open>decision_function\<close>, lines 151-175. \<^verbatim>\<open>check_is_fitted(self, ['gbr_'])\<close> raises
  \<^verbatim>\<open>NotFittedError\<close> when the attribute is not set. The method assigns no attribute;
  the detector it returns is the one it was given.
\<close>

definition decision_function ::
  "'m regressor \<Rightarrow> 'm detector \<Rightarrow> real list list
     \<Rightarrow> (error + (real list \<times> int list \<times> int list)) \<times> 'm detector" where
  "decision_function L self X =
     (case gbr self of
        None \<Rightarrow> (Inl NotFittedError, self)
      | Some m \<Rightarrow>
     (case get_sub_matrices X (window_size self) (step_size self) of
        Inl e \<Rightarrow> (Inl e, self)
      | Inr (subs, lefts, rights) \<Rightarrow>
          let sub_matrices = butlast subs;
              X_left_inds = butlast lefts;
              X_right_inds = butlast rights;
              n = length sub_matrices
          in
     (case target_vector X (step_size self) (window_size self) n of
        Inl e \<Rightarrow> (Inl e, self)
      | Inr y_buf \<Rightarrow>
     (case gbr_predict L m sub_matrices of
        Inl e \<Rightarrow> (Inl e, self)
      | Inr p \<Rightarrow>
     (case abs_residuals y_buf p of
        Inl e \<Rightarrow> (Inl e, self)
      | Inr pred_score \<Rightarrow> (Inr (pred_score, X_left_inds, X_right_inds), self))))))"

text \<open>
  \<^verbatim>\<open>predict\<close>, lines 122-131. \<^verbatim>\<open>check_is_fitted\<close> asks for \<^verbatim>\<open>decision_scores_\<close>,
  \<^verbatim>\<open>threshold_\<close> and \<^verbatim>\<open>labels_\<close>, all three. The three arrays of
  \<^verbatim>\<open>decision_function\<close> are each prefixed with \<^verbatim>\<open>np.zeros((window_size,))\<close>; the
  index arrays become arrays of floats by that. The first array returned is the padded
  score array compared with the threshold.
\<close>

definition predict ::
  "'m regressor \<Rightarrow> 'm detector \<Rightarrow> real list list
     \<Rightarrow> (error + (int list \<times> real list \<times> real list)) \<times> 'm detector" where
  "predict L self X =
     (case (decision_scores self, threshold self, labels self) of
        (Some ds, Some t, Some ls) \<Rightarrow>
          (case decision_function L self X of
             (Inl e, self') \<Rightarrow> (Inl e, self')
           | (Inr (pred_score, X_left_inds, X_right_inds), self') \<Rightarrow>
               (case np_zeros (window_size self') of
                  Inl e \<Rightarrow> (Inl e, self')
                | Inr z \<Rightarrow>
                    (case threshold self' of
                       None \<Rightarrow> (Inl AttributeError, self')
                     | Some t' \<Rightarrow>
                         (Inr (binarize t' (z @ pred_score),
                               z @ map real_of_int X_left_inds,
                               z @ map real_of_int X_right_inds), self'))))
      | _ \<Rightarrow> (Inl NotFittedError, self))"

subsection \<open>Not fitted\<close>

text \<open>
  The detectors on which \<^verbatim>\<open>fit\<close> has not been called with success: a detector as
  its constructor returns it, and any detector that calls of \<^verbatim>\<open>fit\<close> which raised
  have made of it.
\<close>

inductive unfitted :: "'m regressor \<Rightarrow> 'm detector \<Rightarrow> bool" for L :: "'m regressor" where
  constructed: "GBRegOD_init w s c = Inr d \<Longrightarrow> unfitted L d"
| failed_fit: "unfitted L d \<Longrightarrow> fit L d X = (Inl e, d') \<Longrightarrow> unfitted L d'"

subsection \<open>The example of the source\<close>

text \<open>The arrays \<^verbatim>\<open>X_train\<close> and \<^verbatim>\<open>X_test\<close> of the module's main block (lines
  179-185), one column each, and its detector
  \<^verbatim>\<open>clf = GBRegOD(window_size=3, contamination=0.2)\<close> (line 187), here over the
  mean regressor.\<close>

definition X_train :: "real list list" where
  "X_train = [[3], [4], [8], [16], [18], [13], [22], [36], [59], [128], [62], [67], [78], [100]]"

definition X_test :: "real list list" where
  "X_test = [[3], [4], [86 / 10], [134 / 10], [225 / 10], [17], [192 / 10], [361 / 10],
             [127], [- 23], [592 / 10]]"

definition clf :: "(real option) detector" where
  "clf = \<lparr> contamination = 1 / 5, window_size = 3, step_size = 1,
           left_inds = None, right_inds = None, valid_len = None, gbr = None,
           decision_scores = None, threshold = None, labels = None \<rparr>"

text \<open>The detector after \<^verbatim>\<open>clf.fit(X_train)\<close> (line 188): the mean of the eleven
  targets is \<open>599 / 11\<close>, the scores are the distances of the targets from it.\<close>

definition clf_fitted :: "(real option) detector" where
  "clf_fitted =
     \<lparr> contamination = 1 / 5, window_size = 3, step_size = 1,
       left_inds = Some [0, 1, 2, 3, 4, 5, 6, 7, 8, 9, 10],
       right_inds = Some [3, 4, 5, 6, 7, 8, 9, 10, 11, 12, 13],
       valid_len = Some 11, gbr = Some (Some (599 / 11)),
       decision_scores =
         Some [423 / 11, 401 / 11, 456 / 11, 357 / 11, 203 / 11, 50 / 11,
               809 / 11, 83 / 11, 138 / 11, 259 / 11, 501 / 11],
       threshold = Some (456 / 11),
       labels = Some [0, 0, 0, 0, 0, 0, 1, 0, 0, 0, 1] \<rparr>"

section \<open>Facts about the array operations and the windows\<close>

lemma get_sub_matrices_ok:
  assumes "W \<le> int (length X)"
  shows "get_sub_matrices X W S =
           Inr (map (\<lambda>i. concat (take (nat W) (drop (nat (int i * S)) X))) [0..<nat ((int (length X) - W) div S + 1)],
                map (\<lambda>i. int i * S) [0..<nat ((int (length X) - W) div S + 1)],
                map (\<lambda>i. int i * S + W) [0..<nat ((int (length X) - W) div S + 1)])"
  using assms by (simp add: get_sub_matrices_def Let_def)

lemma get_sub_matrices_fail:
  "int (length X) < W \<Longrightarrow> get_sub_matrices X W S = Inl InvalidInputError"
  by (simp add: get_sub_matrices_def Let_def)

lemma retained_count:
  assumes "1 \<le> S" "W \<le> N"
  shows "nat ((N - W) div S + 1) - 1 = nat ((N - W) div (S::int))"
proof -
  have "0 \<le> (N - W) div S" using assms by (simp add: pos_imp_zdiv_nonneg_iff)
  then show ?thesis by (simp add: nat_add_distrib)
qed

lemma butlast_map_upt: "butlast (map f [0..<n]) = map f [0..<n - 1]"
  by (cases n) (simp_all add: butlast_append map_butlast[symmetric])

lemma retained_index_bound:
  assumes S: "1 \<le> (S::int)" and W: "0 \<le> W" "W \<le> N" and i: "int i < (N - W) div S"
  shows "0 \<le> int i * S + W \<and> int i * S + W < N"
proof -
  have "int i + 1 \<le> (N - W) div S" using i by simp
  then have "(int i + 1) * S \<le> ((N - W) div S) * S"
    using S by (intro mult_right_mono) auto
  also have "\<dots> \<le> N - W"
    using S div_mult_mod_eq[of "N - W" S] pos_mod_sign[of S "N - W"] by linarith
  finally have "int i * S + S \<le> N - W" by (simp add: algebra_simps)
  then show ?thesis using S W by auto
qed


lemma row_at_in_range:
  "0 \<le> k \<Longrightarrow> k < int (length X) \<Longrightarrow> row_at X k = Inr (X ! nat k)"
  by (simp add: row_at_def Let_def)

lemma row_at_error: "row_at X k = Inl e \<Longrightarrow> e = IndexError"
  by (auto simp: row_at_def Let_def split: if_splits)

lemma assign_scalar_Inr: "assign_scalar row = Inr v \<longleftrightarrow> row = [v]"
  by (auto simp: assign_scalar_def split: list.splits)

lemma assign_scalar_Inl: "assign_scalar row = Inl e \<longleftrightarrow> length row \<noteq> 1 \<and> e = ValueError"
  by (auto simp: assign_scalar_def split: list.splits)

lemma build_targets_length:
  "build_targets X S W js y = Inr y' \<Longrightarrow> length y' = length y"
  by (induction js arbitrary: y) (auto split: sum.splits)

lemma build_targets_untouched:
  "build_targets X S W js y = Inr y' \<Longrightarrow> j \<notin> set js \<Longrightarrow> y' ! j = y ! j"
  by (induction js arbitrary: y) (auto split: sum.splits)

lemma build_targets_nth:
  "build_targets X S W js y = Inr y' \<Longrightarrow> j \<in> set js \<Longrightarrow> j < length y
     \<Longrightarrow> row_at X (int j * S + W) = Inr [y' ! j]"
proof (induction js arbitrary: y)
  case Nil
  then show ?case by simp
next
  case (Cons i rest)
  from Cons.prems(1) obtain v where
    row: "row_at X (int i * S + W) = Inr [v]" and
    rest: "build_targets X S W rest (y[i := v]) = Inr y'"
    by (auto split: sum.splits simp: assign_scalar_Inr)
  show ?case
  proof (cases "j \<in> set rest")
    case True
    with Cons.IH[OF rest] Cons.prems(3) show ?thesis by simp
  next
    case False
    with Cons.prems(2) have ji: "j = i" by simp
    from build_targets_untouched[OF rest False] Cons.prems(3) ji
    have "y' ! j = v" by simp
    with row ji show ?thesis by simp
  qed
qed

lemma build_targets_no_IndexError:
  "list_all (\<lambda>i. 0 \<le> int i * S + W \<and> int i * S + W < int (length X)) js
     \<Longrightarrow> build_targets X S W js y \<noteq> Inl IndexError"
  by (induction js arbitrary: y)
     (auto split: sum.splits simp: row_at_in_range assign_scalar_Inl)

lemma build_targets_univariate:
  "list_all (\<lambda>i. 0 \<le> int i * S + W \<and> int i * S + W < int (length X)) js
     \<Longrightarrow> list_all (\<lambda>r. length r = 1) X
     \<Longrightarrow> \<exists>y'. build_targets X S W js y = Inr y'"
proof (induction js arbitrary: y)
  case Nil
  then show ?case by simp
next
  case (Cons i rest)
  then have k: "0 \<le> int i * S + W" "int i * S + W < int (length X)" by simp_all
  then have "nat (int i * S + W) < length X" by linarith
  with Cons.prems(2) have "length (X ! nat (int i * S + W)) = 1"
    by (simp add: list_all_length)
  then obtain v where "X ! nat (int i * S + W) = [v]"
    by (cases "X ! nat (int i * S + W)") auto
  with k Cons show ?case
    by (simp add: row_at_in_range assign_scalar_def)
qed

lemma build_targets_multivariate:
  assumes "0 \<le> int i * S + W" "int i * S + W < int (length X)"
      and "length (X ! nat (int i * S + W)) \<noteq> 1"
  shows "build_targets X S W (i # rest) y = Inl ValueError"
proof -
  have "assign_scalar (X ! nat (int i * S + W)) = Inl ValueError"
    using assms(3) by (simp add: assign_scalar_Inl)
  with assms(1,2) show ?thesis by (simp add: row_at_in_range)
qed

section \<open>Facts about the methods\<close>

lemma check_array_Inr: "check_array X = Inr X' \<Longrightarrow> X' = X"
  by (simp add: check_array_def split: if_splits)

lemma check_array_Inl: "check_array X = Inl e \<Longrightarrow> e = InvalidInputError"
  by (simp add: check_array_def split: if_splits)

lemma process_decision_scores_Inr:
  "process_decision_scores d = (Inr u, d') \<Longrightarrow>
     \<exists>scores t. decision_scores d = Some scores
        \<and> quantile_threshold scores (contamination d) = Inr t
        \<and> d' = d\<lparr>threshold := Some t, labels := Some (binarize t scores)\<rparr>"
  by (auto simp: process_decision_scores_def split: option.splits sum.splits)

lemma process_decision_scores_Inl:
  "process_decision_scores d = (Inl e, d') \<Longrightarrow> d' = d"
  by (auto simp: process_decision_scores_def split: option.splits sum.splits)

lemma process_decision_scores_frame:
  "left_inds (snd (process_decision_scores d)) = left_inds d"
  "right_inds (snd (process_decision_scores d)) = right_inds d"
  "valid_len (snd (process_decision_scores d)) = valid_len d"
  "gbr (snd (process_decision_scores d)) = gbr d"
  "decision_scores (snd (process_decision_scores d)) = decision_scores d"
  "window_size (snd (process_decision_scores d)) = window_size d"
  "step_size (snd (process_decision_scores d)) = step_size d"
  "contamination (snd (process_decision_scores d)) = contamination d"
  by (auto simp: process_decision_scores_def split: option.splits sum.splits)

lemma fit_rejects:
  "check_array X = Inl e \<Longrightarrow> fit L d X = (Inl e, d)"
  "check_array X = Inr X \<Longrightarrow> get_sub_matrices X (window_size d) (step_size d) = Inl e
     \<Longrightarrow> fit L d X = (Inl e, d)"
  by (simp_all add: fit_def)

lemma fit_windows:
  assumes "check_array X = Inr X"
      and "get_sub_matrices X (window_size d) (step_size d) = Inr (subs, lefts, rights)"
  shows "left_inds (snd (fit L d X)) = Some (butlast lefts)"
    and "right_inds (snd (fit L d X)) = Some (butlast rights)"
    and "valid_len (snd (fit L d X)) = Some (length (butlast subs))"
  using assms
  by (auto simp: fit_def Let_def process_decision_scores_frame split: sum.splits)

lemma fit_config:
  "window_size (snd (fit L d X)) = window_size d"
  "step_size (snd (fit L d X)) = step_size d"
  "contamination (snd (fit L d X)) = contamination d"
  by (auto simp: fit_def Let_def process_decision_scores_frame split: sum.splits prod.splits)

lemma fit_Inr:
  assumes "fit L d X = (Inr u, d')"
  shows "\<exists>subs lefts rights y m p scores t.
           check_array X = Inr X
         \<and> get_sub_matrices X (window_size d) (step_size d) = Inr (subs, lefts, rights)
         \<and> target_vector X (step_size d) (window_size d) (length (butlast subs)) = Inr y
         \<and> gbr_fit L (gbr_init L) (butlast subs) y = Inr m
         \<and> gbr_predict L m (butlast subs) = Inr p
         \<and> abs_residuals y p = Inr scores
         \<and> quantile_threshold scores (contamination d) = Inr t
         \<and> d' = d\<lparr>left_inds := Some (butlast lefts), right_inds := Some (butlast rights),
                   valid_len := Some (length (butlast subs)), gbr := Some m,
                   decision_scores := Some scores, threshold := Some t,
                   labels := Some (binarize t scores)\<rparr>"
  using assms
  by (auto simp: fit_def Let_def split: sum.splits prod.splits
           dest!: process_decision_scores_Inr check_array_Inr)

lemma fit_Inl:
  assumes "fit L d X = (Inl e, d')"
  shows "threshold d' = threshold d \<and> labels d' = labels d"
  using assms
  by (auto simp: fit_def Let_def split: sum.splits prod.splits
           dest!: process_decision_scores_Inl)

lemma decision_function_Inr:
  assumes "decision_function L d X = (Inr (sc, li, ri), d')"
  shows "\<exists>subs lefts rights y m p.
           gbr d = Some m
         \<and> get_sub_matrices X (window_size d) (step_size d) = Inr (subs, lefts, rights)
         \<and> target_vector X (step_size d) (window_size d) (length (butlast subs)) = Inr y
         \<and> gbr_predict L m (butlast subs) = Inr p
         \<and> abs_residuals y p = Inr sc
         \<and> li = butlast lefts \<and> ri = butlast rights \<and> d' = d"
  using assms
  by (auto simp: decision_function_def Let_def split: sum.splits prod.splits option.splits)

lemma decision_function_state: "snd (decision_function L d X) = d"
  by (auto simp: decision_function_def Let_def split: sum.splits prod.splits option.splits)

section \<open>Facts about the threshold\<close>

lemma count_above_sort:
  "length (filter (\<lambda>s. t < s) (sort xs)) = length (filter (\<lambda>s. t < s) (xs::real list))"
proof -
  have "mset (filter (\<lambda>s. t < s) (sort xs)) = mset (filter (\<lambda>s. t < s) xs)"
    by simp
  then show ?thesis by (metis size_mset)
qed

lemma sorted_count_above_le:
  assumes "sorted (xs::real list)" "j < length xs"
  shows "length (filter (\<lambda>s. xs ! j < s) xs) \<le> length xs - Suc j"
proof -
  have low: "filter (\<lambda>s. xs ! j < s) (take (Suc j) xs) = []"
  proof -
    have "\<forall>s \<in> set (take (Suc j) xs). \<not> xs ! j < s"
    proof
      fix s assume "s \<in> set (take (Suc j) xs)"
      then obtain i where "i < Suc j" "i < length xs" "s = xs ! i"
        by (auto simp: in_set_conv_nth)
      with assms show "\<not> xs ! j < s"
        by (simp add: sorted_nth_mono not_less)
    qed
    then show ?thesis by (simp add: filter_empty_conv)
  qed
  have "filter (\<lambda>s. xs ! j < s) xs
          = filter (\<lambda>s. xs ! j < s) (take (Suc j) xs) @ filter (\<lambda>s. xs ! j < s) (drop (Suc j) xs)"
    by (metis append_take_drop_id filter_append)
  with low have "length (filter (\<lambda>s. xs ! j < s) xs) = length (filter (\<lambda>s. xs ! j < s) (drop (Suc j) xs))"
    by simp
  also have "\<dots> \<le> length (drop (Suc j) xs)" by (rule length_filter_le)
  finally show ?thesis by simp
qed

lemma sorted_distinct_count_above:
  assumes "sorted (xs::real list)" "distinct xs" "j < length xs"
  shows "length (filter (\<lambda>s. xs ! j < s) xs) = length xs - Suc j"
proof -
  have low: "filter (\<lambda>s. xs ! j < s) (take (Suc j) xs) = []"
  proof -
    have "\<forall>s \<in> set (take (Suc j) xs). \<not> xs ! j < s"
    proof
      fix s assume "s \<in> set (take (Suc j) xs)"
      then obtain i where "i < Suc j" "i < length xs" "s = xs ! i"
        by (auto simp: in_set_conv_nth)
      with assms show "\<not> xs ! j < s"
        by (simp add: sorted_nth_mono not_less)
    qed
    then show ?thesis by (simp add: filter_empty_conv)
  qed
  have high: "filter (\<lambda>s. xs ! j < s) (drop (Suc j) xs) = drop (Suc j) xs"
  proof -
    have "\<forall>s \<in> set (drop (Suc j) xs). xs ! j < s"
    proof
      fix s assume "s \<in> set (drop (Suc j) xs)"
      then obtain i where i: "i < length xs - Suc j" "s = xs ! (Suc j + i)"
        by (auto simp: in_set_conv_nth)
      then have "xs ! j \<le> s" using assms by (simp add: sorted_nth_mono)
      moreover have "xs ! j \<noteq> s"
        using i assms by (simp add: nth_eq_iff_index_eq)
      ultimately show "xs ! j < s" by simp
    qed
    then show ?thesis by (simp add: filter_id_conv)
  qed
  have "filter (\<lambda>s. xs ! j < s) xs
          = filter (\<lambda>s. xs ! j < s) (take (Suc j) xs) @ filter (\<lambda>s. xs ! j < s) (drop (Suc j) xs)"
    by (metis append_take_drop_id filter_append)
  with low high show ?thesis by simp
qed

lemma floor_fraction_less:
  assumes "0 < n" "c < 1"
  shows "nat \<lfloor>real n * c\<rfloor> < n"
proof -
  have "real n * c < real n" using assms by simp
  then have "\<lfloor>real n * c\<rfloor> < int n" by (simp add: floor_less_iff)
  then show ?thesis using assms by linarith
qed

lemma quantile_threshold_Inr:
  assumes "quantile_threshold scores c = Inr t"
  shows "scores \<noteq> [] \<and> t \<in> set scores
       \<and> t = sort scores ! (length scores - 1 - nat \<lfloor>real (length scores) * c\<rfloor>)"
proof -
  from assms have ne: "scores \<noteq> []"
    and t: "t = sort scores ! (length scores - 1 - nat \<lfloor>real (length scores) * c\<rfloor>)"
    by (auto simp: quantile_threshold_def split: if_splits)
  from ne have "length scores - 1 - nat \<lfloor>real (length scores) * c\<rfloor> < length (sort scores)"
    by (cases scores) simp_all
  then have "t \<in> set (sort scores)" unfolding t by (rule nth_mem)
  with ne t show ?thesis by simp
qed

lemma quantile_count_le:
  assumes "quantile_threshold scores c = Inr t" "c < 1"
  shows "length (filter (\<lambda>s. t < s) scores) \<le> nat \<lfloor>real (length scores) * c\<rfloor>"
proof -
  let ?n = "length scores" and ?k = "nat \<lfloor>real (length scores) * c\<rfloor>"
  from quantile_threshold_Inr[OF assms(1)]
  have ne: "scores \<noteq> []" and t: "t = sort scores ! (?n - 1 - ?k)" by simp_all
  have k: "?k < ?n" using ne assms(2) by (intro floor_fraction_less) simp_all
  have "length (filter (\<lambda>s. t < s) (sort scores)) \<le> length (sort scores) - Suc (?n - 1 - ?k)"
    unfolding t by (rule sorted_count_above_le) (use k in simp_all)
  also have "\<dots> = ?k" using k by simp
  finally show ?thesis by (simp add: count_above_sort)
qed

lemma quantile_count_distinct:
  assumes "quantile_threshold scores c = Inr t" "c < 1" "distinct scores"
  shows "length (filter (\<lambda>s. t < s) scores) = nat \<lfloor>real (length scores) * c\<rfloor>"
proof -
  let ?n = "length scores" and ?k = "nat \<lfloor>real (length scores) * c\<rfloor>"
  from quantile_threshold_Inr[OF assms(1)]
  have ne: "scores \<noteq> []" and t: "t = sort scores ! (?n - 1 - ?k)" by simp_all
  have k: "?k < ?n" using ne assms(2) by (intro floor_fraction_less) simp_all
  have "length (filter (\<lambda>s. t < s) (sort scores)) = length (sort scores) - Suc (?n - 1 - ?k)"
    unfolding t by (rule sorted_distinct_count_above) (use k assms(3) in simp_all)
  also have "\<dots> = ?k" using k by simp
  finally show ?thesis by (simp add: count_above_sort)
qed

lemma abs_residuals_nonneg:
  "abs_residuals a b = Inr sc \<Longrightarrow> list_all (\<lambda>s. 0 \<le> s) sc"
  by (auto simp: abs_residuals_def list_all_iff split: if_splits dest!: set_zip_leftD)

lemma abs_residuals_length:
  "abs_residuals a b = Inr sc \<Longrightarrow> length b = length a \<Longrightarrow> length sc = length a"
  by (auto simp: abs_residuals_def split: if_splits)

lemma one_per_row_mean_regressor: "one_per_row mean_regressor"
  by (auto simp: one_per_row_def mean_regressor_def split: if_splits option.splits)

lemma clf_constructed: "GBRegOD_init 3 1 (1 / 5) = Inr clf"
  by (simp add: GBRegOD_init_def CollectiveBaseDetector_init_def clf_def)

lemma windows_X_train:
  "get_sub_matrices X_train 3 1 =
     Inr ([[3, 4, 8], [4, 8, 16], [8, 16, 18], [16, 18, 13], [18, 13, 22], [13, 22, 36],
           [22, 36, 59], [36, 59, 128], [59, 128, 62], [128, 62, 67], [62, 67, 78], [67, 78, 100]],
          [0, 1, 2, 3, 4, 5, 6, 7, 8, 9, 10, 11],
          [3, 4, 5, 6, 7, 8, 9, 10, 11, 12, 13, 14])"
  by code_simp

lemma length_X_train: "length X_train = 14"
  by (simp add: X_train_def)

lemma check_array_X_train: "check_array X_train = Inr X_train"
  by (simp add: check_array_def X_train_def)

lemma clf_fields:
  "contamination clf = 1 / 5" "window_size clf = 3" "step_size clf = 1"
  "left_inds clf = None" "right_inds clf = None" "valid_len clf = None" "gbr clf = None"
  "decision_scores clf = None" "threshold clf = None" "labels clf = None"
  by (simp_all add: clf_def)

lemma clf_fitted_fields:
  "contamination clf_fitted = 1 / 5" "window_size clf_fitted = 3" "step_size clf_fitted = 1"
  "left_inds clf_fitted = Some [0, 1, 2, 3, 4, 5, 6, 7, 8, 9, 10]"
  "right_inds clf_fitted = Some [3, 4, 5, 6, 7, 8, 9, 10, 11, 12, 13]"
  "valid_len clf_fitted = Some 11" "gbr clf_fitted = Some (Some (599 / 11))"
  "threshold clf_fitted = Some (456 / 11)"
  "labels clf_fitted = Some [0, 0, 0, 0, 0, 0, 1, 0, 0, 0, 1]"
  by (simp_all add: clf_fitted_def)

lemma fit_clf_X_train: "fit mean_regressor clf X_train = (Inr (), clf_fitted)"
  by code_simp

lemma length_X_test: "length X_test = 11"
  by (simp add: X_test_def)

lemma decision_function_X_test:
  "decision_function mean_regressor clf_fitted X_test =
     (Inr ([2258 / 55, 703 / 22, 412 / 11, 1939 / 55, 2019 / 110, 798 / 11, 852 / 11, 261 / 55],
           [0, 1, 2, 3, 4, 5, 6, 7], [3, 4, 5, 6, 7, 8, 9, 10]), clf_fitted)"
  by code_simp

lemma predict_X_test:
  "predict mean_regressor clf_fitted X_test =
     (Inr ([0, 0, 0, 0, 0, 0, 0, 0, 1, 1, 0], [0, 0, 0, 0, 1, 2, 3, 4, 5, 6, 7],
           [0, 0, 0, 3, 4, 5, 6, 7, 8, 9, 10]), clf_fitted)"
  by code_simp


lemma get_sub_matrices_Inr:
  assumes "get_sub_matrices X W S = Inr (subs, lefts, rights)"
  shows "W \<le> int (length X)"
    and "length subs = nat ((int (length X) - W) div S + 1)"
    and "lefts = map (\<lambda>i. int i * S) [0..<nat ((int (length X) - W) div S + 1)]"
    and "rights = map (\<lambda>i. int i * S + W) [0..<nat ((int (length X) - W) div S + 1)]"
  using assms by (auto simp: get_sub_matrices_def Let_def split: if_splits)

lemma trimmed_windows:
  assumes "get_sub_matrices X W S = Inr (subs, lefts, rights)"
  shows "length (butlast subs) = nat ((int (length X) - W) div S + 1) - 1"
    and "butlast lefts = map (\<lambda>i. int i * S) [0..<nat ((int (length X) - W) div S + 1) - 1]"
    and "butlast rights = map (\<lambda>i. int i * S + W) [0..<nat ((int (length X) - W) div S + 1) - 1]"
  using get_sub_matrices_Inr[OF assms] by (simp_all add: butlast_map_upt)

lemma target_vector_in_bounds:
  assumes "1 \<le> S" "0 \<le> W" "W \<le> int (length X)" "n \<le> nat ((int (length X) - W) div S)"
  shows "list_all (\<lambda>i. 0 \<le> int i * S + W \<and> int i * S + W < int (length X)) [0..<n]"
  unfolding list_all_iff
proof
  fix i assume "i \<in> set [0..<n]"
  then have "int i < (int (length X) - W) div S" using assms(4) by auto
  from retained_index_bound[OF assms(1,2,3) this]
  show "0 \<le> int i * S + W \<and> int i * S + W < int (length X)" .
qed

lemma fit_targets_fail:
  assumes "check_array X = Inr X"
      and "get_sub_matrices X (window_size d) (step_size d) = Inr (subs, lefts, rights)"
      and "target_vector X (step_size d) (window_size d) (length (butlast subs)) = Inl e"
  shows "fit L d X =
           (Inl e, d\<lparr>left_inds := Some (butlast lefts), right_inds := Some (butlast rights),
                      valid_len := Some (length (butlast subs))\<rparr>)"
  using assms by (simp add: fit_def Let_def)

lemma build_targets_error:
  "build_targets X S W js y = Inl e \<Longrightarrow> e = IndexError \<or> e = ValueError"
  by (induction js arbitrary: y)
     (auto split: sum.splits simp: assign_scalar_Inl dest: row_at_error)

lemma trimmed_subs:
  assumes "get_sub_matrices X W S = Inr (subs, lefts, rights)"
  shows "butlast subs = map (\<lambda>i. concat (take (nat W) (drop (nat (int i * S)) X)))
                          [0..<nat ((int (length X) - W) div S + 1) - 1]"
  using assms by (auto simp: get_sub_matrices_def Let_def butlast_map_upt split: if_splits)

lemma abs_residuals_same_length:
  "length p = length y \<Longrightarrow> abs_residuals y p = Inr (map2 (\<lambda>a b. \<bar>a - b\<bar>) y p)"
  by (simp add: abs_residuals_def)

lemma fit_after_targets:
  assumes "check_array X = Inr X"
      and "get_sub_matrices X (window_size d) (step_size d) = Inr (subs, lefts, rights)"
      and "target_vector X (step_size d) (window_size d) (length (butlast subs)) = Inr y"
  shows "gbr_fit L (gbr_init L) (butlast subs) y = Inl e \<Longrightarrow> fst (fit L d X) = Inl e"
    and "gbr_fit L (gbr_init L) (butlast subs) y = Inr m \<Longrightarrow>
         gbr_predict L m (butlast subs) = Inr p \<Longrightarrow> length p = length y \<Longrightarrow>
         decision_scores (snd (fit L d X)) = Some (map2 (\<lambda>a b. \<bar>a - b\<bar>) y p)"
  using assms
  by (simp_all add: fit_def Let_def abs_residuals_same_length process_decision_scores_frame)

lemma decision_function_after_targets:
  assumes "gbr d = Some m"
      and "get_sub_matrices X (window_size d) (step_size d) = Inr (subs, lefts, rights)"
  shows "target_vector X (step_size d) (window_size d) (length (butlast subs)) = Inl e \<Longrightarrow>
         decision_function L d X = (Inl e, d)"
    and "target_vector X (step_size d) (window_size d) (length (butlast subs)) = Inr y \<Longrightarrow>
         gbr_predict L m (butlast subs) = Inr p \<Longrightarrow> length p = length y \<Longrightarrow>
         decision_function L d X =
           (Inr (map2 (\<lambda>a b. \<bar>a - b\<bar>) y p, butlast lefts, butlast rights), d)"
  using assms
  by (simp_all add: decision_function_def Let_def abs_residuals_same_length)

lemma target_vector_length:
  "target_vector X S W n = Inr y \<Longrightarrow> length y = n"
  by (auto simp: target_vector_def dest: build_targets_length)


lemma retained_windows:
  assumes "1 \<le> S" and "W \<le> int (length X)"
  shows "\<exists>subs lefts rights.
           get_sub_matrices X W S = Inr (subs, lefts, rights)
         \<and> length (butlast subs) = nat ((int (length X) - W) div S)
         \<and> butlast subs = map (\<lambda>i. concat (take (nat W) (drop (nat (int i * S)) X)))
                               [0..<nat ((int (length X) - W) div S)]
         \<and> butlast lefts = map (\<lambda>i. int i * S) [0..<nat ((int (length X) - W) div S)]
         \<and> butlast rights = map (\<lambda>i. int i * S + W) [0..<nat ((int (length X) - W) div S)]"
proof -
  obtain subs lefts rights where
    win: "get_sub_matrices X W S = Inr (subs, lefts, rights)"
    using get_sub_matrices_ok[OF assms(2), of S] by blast
  note kept = retained_count[OF assms]
  note t = trimmed_windows[OF win, unfolded kept] trimmed_subs[OF win, unfolded kept]
  from win t show ?thesis by blast
qed

lemma univariate_targets:
  assumes "1 \<le> S" and "0 \<le> W" and "W \<le> int (length X)"
      and "list_all (\<lambda>r. length r = 1) X"
  shows "\<exists>y. target_vector X S W (nat ((int (length X) - W) div S)) = Inr y
           \<and> length y = nat ((int (length X) - W) div S)"
proof -
  have "list_all (\<lambda>i. 0 \<le> int i * S + W \<and> int i * S + W < int (length X))
          [0..<nat ((int (length X) - W) div S)]"
    by (rule target_vector_in_bounds[OF assms(1,2,3)]) simp
  from build_targets_univariate[OF this assms(4)]
  obtain y where "target_vector X S W (nat ((int (length X) - W) div S)) = Inr y"
    unfolding target_vector_def by blast
  with target_vector_length[OF this] show ?thesis by blast
qed

lemma targets_X_train:
  "target_vector X_train 1 3 11 = Inr [16, 18, 13, 22, 36, 59, 128, 62, 67, 78, 100]"
  by code_simp

lemma kept_X_train:
  "nat ((int (length X_train) - window_size clf) div step_size clf) = 11"
  by (simp add: length_X_train clf_fields)

lemma kept_X_test:
  "nat ((int (length X_test) - window_size clf_fitted) div step_size clf_fitted) = 8"
  by (simp add: length_X_test clf_fitted_fields)

section \<open>The claims\<close>

subsection \<open>C2: the number of windows, and the trim\<close>

text \<open>
  Claim C2. For a sequence of \<open>N \<ge> W\<close> rows and a stride \<open>S \<ge> 1\<close> the windowing
  stage produces \<open>floor ((N - W) / S) + 1\<close> windows, with as many left and right
  indices. \<^verbatim>\<open>fit\<close> and \<^verbatim>\<open>decision_function\<close> both drop the last one, so that
  \<open>floor ((N - W) / S)\<close> are retained, one fewer. \<^verbatim>\<open>fit\<close> stores that number in
  \<^verbatim>\<open>valid_len_\<close> and index arrays of that length, whatever the regressor does
  afterwards. \<^verbatim>\<open>decision_function\<close>, on a detector that has a regressor and an
  input of one column, passes the retained windows and no other to the regressor, and
  when the regressor answers with one prediction for each of them it returns the scores
  and the index arrays of the retained windows; whenever it returns, its index arrays
  have that length. On the fourteen samples of \<open>X_train\<close>, with \<open>window_size = 3\<close>
  and \<open>step_size = 1\<close>, there are 12 windows, 11 after the trim, with
  \<^verbatim>\<open>left_inds_\<close> \<open>= [0, ..., 10]\<close> and \<^verbatim>\<open>right_inds_\<close> \<open>= [3, ..., 13]\<close>.
\<close>

theorem windows_counted_and_trimmed:
  assumes "1 \<le> step_size d" and "window_size d \<le> int (length X)"
  shows "(\<exists>subs lefts rights.
            get_sub_matrices X (window_size d) (step_size d) = Inr (subs, lefts, rights)
          \<and> length subs = nat ((int (length X) - window_size d) div step_size d + 1)
          \<and> length lefts = length subs \<and> length rights = length subs)
       \<and> nat ((int (length X) - window_size d) div step_size d + 1)
            = Suc (nat ((int (length X) - window_size d) div step_size d))
       \<and> (check_array X = Inr X \<longrightarrow>
            valid_len (snd (fit L d X))
              = Some (nat ((int (length X) - window_size d) div step_size d))
          \<and> map_option length (left_inds (snd (fit L d X)))
              = Some (nat ((int (length X) - window_size d) div step_size d))
          \<and> map_option length (right_inds (snd (fit L d X)))
              = Some (nat ((int (length X) - window_size d) div step_size d)))
       \<and> (\<forall>sc li ri d'. decision_function L d X = (Inr (sc, li, ri), d') \<longrightarrow>
            length li = nat ((int (length X) - window_size d) div step_size d)
          \<and> length ri = nat ((int (length X) - window_size d) div step_size d))
       \<and> (\<forall>m p. gbr d = Some m \<and> 1 \<le> window_size d \<and> list_all (\<lambda>r. length r = 1) X
              \<and> gbr_predict L m
                   (map (\<lambda>i. concat (take (nat (window_size d)) (drop (nat (int i * step_size d)) X)))
                      [0..<nat ((int (length X) - window_size d) div step_size d)]) = Inr p
              \<and> length p = nat ((int (length X) - window_size d) div step_size d) \<longrightarrow>
            (\<exists>sc. decision_function L d X =
                    (Inr (sc,
                          map (\<lambda>i. int i * step_size d)
                            [0..<nat ((int (length X) - window_size d) div step_size d)],
                          map (\<lambda>i. int i * step_size d + window_size d)
                            [0..<nat ((int (length X) - window_size d) div step_size d)]), d)
                \<and> length sc = nat ((int (length X) - window_size d) div step_size d)))
       \<and> (\<exists>subs lefts rights.
            get_sub_matrices X_train 3 1 = Inr (subs, lefts, rights) \<and> length subs = 12)
       \<and> valid_len (snd (fit L (d\<lparr>window_size := 3, step_size := 1\<rparr>) X_train)) = Some 11
       \<and> left_inds (snd (fit L (d\<lparr>window_size := 3, step_size := 1\<rparr>) X_train))
            = Some [0, 1, 2, 3, 4, 5, 6, 7, 8, 9, 10]
       \<and> right_inds (snd (fit L (d\<lparr>window_size := 3, step_size := 1\<rparr>) X_train))
            = Some [3, 4, 5, 6, 7, 8, 9, 10, 11, 12, 13]"
proof -
  let ?W = "window_size d" and ?S = "step_size d" and ?N = "int (length X)"
  let ?raw = "nat ((?N - ?W) div ?S + 1)"
  let ?kept = "nat ((?N - ?W) div ?S)"
  note win = get_sub_matrices_ok[OF assms(2), of ?S]
  have kept: "?raw - 1 = ?kept" using assms(1,2) by (rule retained_count)
  have nonneg: "0 \<le> (?N - ?W) div ?S"
    using assms(1,2) by (simp add: pos_imp_zdiv_nonneg_iff)
  have a: "\<exists>subs lefts rights.
            get_sub_matrices X ?W ?S = Inr (subs, lefts, rights)
          \<and> length subs = ?raw \<and> length lefts = length subs \<and> length rights = length subs"
    by (simp add: win)
  have b: "?raw = Suc ?kept" using nonneg by (simp add: nat_add_distrib)
  have c: "valid_len (snd (fit L d X)) = Some ?kept
          \<and> map_option length (left_inds (snd (fit L d X))) = Some ?kept
          \<and> map_option length (right_inds (snd (fit L d X))) = Some ?kept"
    if "check_array X = Inr X"
    using fit_windows[OF that win, of L] kept by simp
  have e: "length li = ?kept \<and> length ri = ?kept"
    if "decision_function L d X = (Inr (sc, li, ri), d')" for sc li ri d'
    using decision_function_Inr[OF that] win kept by auto
  have e2: "\<exists>sc. decision_function L d X =
                    (Inr (sc, map (\<lambda>i. int i * ?S) [0..<?kept],
                          map (\<lambda>i. int i * ?S + ?W) [0..<?kept]), d)
                \<and> length sc = ?kept"
    if h: "gbr d = Some m \<and> 1 \<le> ?W \<and> list_all (\<lambda>r. length r = 1) X
              \<and> gbr_predict L m
                   (map (\<lambda>i. concat (take (nat ?W) (drop (nat (int i * ?S)) X))) [0..<?kept]) = Inr p
              \<and> length p = ?kept" for m p
  proof -
    from retained_windows[OF assms] obtain subs lefts rights where
      w: "get_sub_matrices X ?W ?S = Inr (subs, lefts, rights)"
      and n: "length (butlast subs) = ?kept"
      and sb: "butlast subs = map (\<lambda>i. concat (take (nat ?W) (drop (nat (int i * ?S)) X))) [0..<?kept]"
      and lf: "butlast lefts = map (\<lambda>i. int i * ?S) [0..<?kept]"
      and rt: "butlast rights = map (\<lambda>i. int i * ?S + ?W) [0..<?kept]"
      by blast
    from h have W0: "0 \<le> ?W" and uni: "list_all (\<lambda>r. length r = 1) X"
      and g: "gbr d = Some m" by simp_all
    from univariate_targets[OF assms(1) W0 assms(2) uni] obtain y where
      y: "target_vector X ?S ?W ?kept = Inr y" and ly: "length y = ?kept" by blast
    from y n have y': "target_vector X ?S ?W (length (butlast subs)) = Inr y" by simp
    from h sb have p: "gbr_predict L m (butlast subs) = Inr p" by simp
    from h ly have lp: "length p = length y" by simp
    from decision_function_after_targets(2)[OF g w y' p lp] lf rt ly lp
    show ?thesis by simp
  qed
  let ?d3 = "d\<lparr>window_size := 3, step_size := 1\<rparr>"
  have w3: "get_sub_matrices X_train (window_size ?d3) (step_size ?d3) =
     Inr ([[3, 4, 8], [4, 8, 16], [8, 16, 18], [16, 18, 13], [18, 13, 22], [13, 22, 36],
           [22, 36, 59], [36, 59, 128], [59, 128, 62], [128, 62, 67], [62, 67, 78], [67, 78, 100]],
          [0, 1, 2, 3, 4, 5, 6, 7, 8, 9, 10, 11],
          [3, 4, 5, 6, 7, 8, 9, 10, 11, 12, 13, 14])"
    by (simp add: windows_X_train)
  have f: "\<exists>subs lefts rights.
            get_sub_matrices X_train 3 1 = Inr (subs, lefts, rights) \<and> length subs = 12"
    by (simp add: windows_X_train)
  have g: "valid_len (snd (fit L ?d3 X_train)) = Some 11"
    and h: "left_inds (snd (fit L ?d3 X_train)) = Some [0, 1, 2, 3, 4, 5, 6, 7, 8, 9, 10]"
    and i: "right_inds (snd (fit L ?d3 X_train)) = Some [3, 4, 5, 6, 7, 8, 9, 10, 11, 12, 13]"
    using fit_windows[OF check_array_X_train w3, of L] by simp_all
  from a b c e e2 f g h i show ?thesis by blast
qed

theorem windows_counted_and_trimmed_witness:
  "1 \<le> step_size clf \<and> window_size clf \<le> int (length X_train)
   \<and> check_array X_train = Inr X_train
   \<and> nat ((int (length X_train) - window_size clf) div step_size clf + 1) = 12
   \<and> valid_len (snd (fit mean_regressor clf X_train)) = Some 11
   \<and> map_option length (left_inds (snd (fit mean_regressor clf X_train))) = Some 11
   \<and> map_option length (right_inds (snd (fit mean_regressor clf X_train))) = Some 11
   \<and> 1 \<le> step_size clf_fitted \<and> window_size clf_fitted \<le> int (length X_test)
   \<and> nat ((int (length X_test) - window_size clf_fitted) div step_size clf_fitted + 1) = 9
   \<and> decision_function mean_regressor clf_fitted X_test =
        (Inr ([2258 / 55, 703 / 22, 412 / 11, 1939 / 55, 2019 / 110, 798 / 11, 852 / 11, 261 / 55],
              [0, 1, 2, 3, 4, 5, 6, 7], [3, 4, 5, 6, 7, 8, 9, 10]), clf_fitted)
   \<and> length [0, 1, 2, 3, 4, 5, 6, 7 :: int] = 8"
proof -
  have s1: "1 \<le> step_size clf" and w1: "window_size clf \<le> int (length X_train)"
    by (simp_all add: clf_fields length_X_train)
  have s2: "1 \<le> step_size clf_fitted" and w2: "window_size clf_fitted \<le> int (length X_test)"
    by (simp_all add: clf_fitted_fields length_X_test)
  note t1 = windows_counted_and_trimmed[OF s1 w1, of mean_regressor]
  note t2 = windows_counted_and_trimmed[OF s2 w2, of mean_regressor]
  from t1 have "nat ((int (length X_train) - window_size clf) div step_size clf + 1)
                  = Suc (nat ((int (length X_train) - window_size clf) div step_size clf))"
    by (rule conjunct2[THEN conjunct1])
  then have a: "nat ((int (length X_train) - window_size clf) div step_size clf + 1) = 12"
    by (simp only: kept_X_train)
  from t1 check_array_X_train have
    b: "valid_len (snd (fit mean_regressor clf X_train)) = Some 11
      \<and> map_option length (left_inds (snd (fit mean_regressor clf X_train))) = Some 11
      \<and> map_option length (right_inds (snd (fit mean_regressor clf X_train))) = Some 11"
    by (simp only: kept_X_train)
  from t2 have "nat ((int (length X_test) - window_size clf_fitted) div step_size clf_fitted + 1)
                  = Suc (nat ((int (length X_test) - window_size clf_fitted) div step_size clf_fitted))"
    by (rule conjunct2[THEN conjunct1])
  then have c: "nat ((int (length X_test) - window_size clf_fitted) div step_size clf_fitted + 1) = 9"
    by (simp only: kept_X_test)
  from t2 decision_function_X_test have e: "length [0, 1, 2, 3, 4, 5, 6, 7 :: int] = 8"
    by (simp only: kept_X_test)
  from s1 w1 check_array_X_train a b s2 w2 c decision_function_X_test e
  show ?thesis by blast
qed

subsection \<open>C9: the boundaries of the retained windows\<close>

text \<open>
  Claim C9. For every retained window \<open>i\<close>, in the index arrays that \<^verbatim>\<open>fit\<close>
  stores and in those that \<^verbatim>\<open>decision_function\<close> returns,
  \<open>left_inds[i] = i * step_size\<close> and \<open>right_inds[i] = left_inds[i] + window_size\<close>.
\<close>

theorem window_boundaries:
  "(check_array X = Inr X \<and> window_size d \<le> int (length X) \<longrightarrow>
      (\<exists>li ri. left_inds (snd (fit L d X)) = Some li
             \<and> right_inds (snd (fit L d X)) = Some ri
             \<and> valid_len (snd (fit L d X)) = Some (length li)
             \<and> length ri = length li
             \<and> (\<forall>i<length li. li ! i = int i * step_size d
                              \<and> ri ! i = li ! i + window_size d)))
 \<and> (\<forall>sc li ri d'. decision_function L d X = (Inr (sc, li, ri), d') \<longrightarrow>
        length ri = length li
      \<and> (\<forall>i<length li. li ! i = int i * step_size d \<and> ri ! i = li ! i + window_size d))"
proof -
  have fit_part: "\<exists>li ri. left_inds (snd (fit L d X)) = Some li
             \<and> right_inds (snd (fit L d X)) = Some ri
             \<and> valid_len (snd (fit L d X)) = Some (length li)
             \<and> length ri = length li
             \<and> (\<forall>i<length li. li ! i = int i * step_size d
                              \<and> ri ! i = li ! i + window_size d)"
    if a: "check_array X = Inr X \<and> window_size d \<le> int (length X)"
  proof -
    from a have win: "get_sub_matrices X (window_size d) (step_size d) =
        Inr (map (\<lambda>i. concat (take (nat (window_size d)) (drop (nat (int i * step_size d)) X)))
               [0..<nat ((int (length X) - window_size d) div step_size d + 1)],
             map (\<lambda>i. int i * step_size d)
               [0..<nat ((int (length X) - window_size d) div step_size d + 1)],
             map (\<lambda>i. int i * step_size d + window_size d)
               [0..<nat ((int (length X) - window_size d) div step_size d + 1)])"
      by (simp add: get_sub_matrices_ok)
    from a have chk: "check_array X = Inr X" by simp
    from fit_windows[OF chk win, of L] trimmed_windows[OF win]
    show ?thesis by simp
  qed
  have df_part: "length ri = length li
      \<and> (\<forall>i<length li. li ! i = int i * step_size d \<and> ri ! i = li ! i + window_size d)"
    if "decision_function L d X = (Inr (sc, li, ri), d')" for sc li ri d'
  proof -
    from decision_function_Inr[OF that] obtain subs lefts rights where
      win: "get_sub_matrices X (window_size d) (step_size d) = Inr (subs, lefts, rights)"
      and li: "li = butlast lefts" and ri: "ri = butlast rights"
      by blast
    from trimmed_windows[OF win] li ri show ?thesis by simp
  qed
  from fit_part df_part show ?thesis by blast
qed

theorem window_boundaries_witness:
  "check_array X_train = Inr X_train \<and> window_size clf \<le> int (length X_train)
   \<and> (\<exists>li ri. left_inds (snd (fit mean_regressor clf X_train)) = Some li
         \<and> right_inds (snd (fit mean_regressor clf X_train)) = Some ri
         \<and> length li = 11
         \<and> li ! 10 = 10 * step_size clf \<and> ri ! 10 = li ! 10 + window_size clf)
   \<and> decision_function mean_regressor clf_fitted X_test =
        (Inr ([2258 / 55, 703 / 22, 412 / 11, 1939 / 55, 2019 / 110, 798 / 11, 852 / 11, 261 / 55],
              [0, 1, 2, 3, 4, 5, 6, 7], [3, 4, 5, 6, 7, 8, 9, 10]), clf_fitted)
   \<and> [3, 4, 5, 6, 7, 8, 9, 10] ! 7 = [0, 1, 2, 3, 4, 5, 6, 7] ! 7 + window_size clf_fitted"
proof -
  have chk: "check_array X_train = Inr X_train \<and> window_size clf \<le> int (length X_train)"
    by (simp add: check_array_X_train clf_fields length_X_train)
  from window_boundaries[of X_train clf mean_regressor] chk
  obtain li ri where
    l: "left_inds (snd (fit mean_regressor clf X_train)) = Some li"
    and r: "right_inds (snd (fit mean_regressor clf X_train)) = Some ri"
    and b: "\<forall>i<length li. li ! i = int i * step_size clf \<and> ri ! i = li ! i + window_size clf"
    by blast
  from l have len: "length li = 11" by (auto simp: fit_clf_X_train clf_fitted_fields)
  with b have "li ! 10 = 10 * step_size clf \<and> ri ! 10 = li ! 10 + window_size clf"
    by force
  with l r len have
    "\<exists>li ri. left_inds (snd (fit mean_regressor clf X_train)) = Some li
         \<and> right_inds (snd (fit mean_regressor clf X_train)) = Some ri
         \<and> length li = 11
         \<and> li ! 10 = 10 * step_size clf \<and> ri ! 10 = li ! 10 + window_size clf"
    by blast
  moreover from window_boundaries[of X_test clf_fitted mean_regressor] decision_function_X_test
  have "[3, 4, 5, 6, 7, 8, 9, 10] ! 7 = [0, 1, 2, 3, 4, 5, 6, 7] ! 7 + window_size clf_fitted"
    by (simp add: clf_fitted_fields)
  ultimately show ?thesis using chk decision_function_X_test by blast
qed

subsection \<open>C3: the targets\<close>

text \<open>
  Claim C3. Take a detector with \<open>window_size \<ge> 1\<close> and \<open>step_size \<ge> 1\<close> and an
  input of \<open>N \<ge> window_size\<close> rows, and let \<open>k = floor ((N - W) / S)\<close> be the
  number of retained windows. For every retained window \<open>i\<close> the index
  \<open>i * step_size + window_size\<close>, which is \<open>left_inds[i] + window_size\<close>, is a row
  of the input, the loop over the \<open>k\<close> windows never raises \<^verbatim>\<open>IndexError\<close>, the
  target of window \<open>i\<close> is the value of that row, and on an input of one column the
  loop returns the target vector. That loop is the one \<^verbatim>\<open>fit\<close> and
  \<^verbatim>\<open>decision_function\<close> run: \<^verbatim>\<open>fit\<close> stores \<open>k\<close> and the left indices
  \<open>i * step_size\<close>, raises what the loop raises (a \<^verbatim>\<open>ValueError\<close> only), and
  otherwise hands the retained windows and these targets to the regressor, raises what
  its \<^verbatim>\<open>fit\<close> raises, and stores as scores the distances between these targets and
  the predictions; \<^verbatim>\<open>decision_function\<close> does the same with the regressor it has
  and returns those distances with the index arrays.
\<close>

theorem targets_in_bounds:
  assumes "1 \<le> window_size d" and "1 \<le> step_size d" and "window_size d \<le> int (length X)"
  shows "(\<forall>i<nat ((int (length X) - window_size d) div step_size d).
            0 \<le> int i * step_size d + window_size d
          \<and> int i * step_size d + window_size d < int (length X))
       \<and> target_vector X (step_size d) (window_size d)
            (nat ((int (length X) - window_size d) div step_size d)) \<noteq> Inl IndexError
       \<and> (\<forall>y. target_vector X (step_size d) (window_size d)
                 (nat ((int (length X) - window_size d) div step_size d)) = Inr y \<longrightarrow>
              length y = nat ((int (length X) - window_size d) div step_size d)
            \<and> (\<forall>i<nat ((int (length X) - window_size d) div step_size d).
                   row_at X (int i * step_size d + window_size d) = Inr [y ! i]))
       \<and> (list_all (\<lambda>r. length r = 1) X \<longrightarrow>
              (\<exists>y. target_vector X (step_size d) (window_size d)
                     (nat ((int (length X) - window_size d) div step_size d)) = Inr y))
       \<and> (check_array X = Inr X \<longrightarrow>
              valid_len (snd (fit L d X))
                = Some (nat ((int (length X) - window_size d) div step_size d))
            \<and> left_inds (snd (fit L d X))
                = Some (map (\<lambda>i. int i * step_size d)
                          [0..<nat ((int (length X) - window_size d) div step_size d)])
            \<and> (\<forall>e. target_vector X (step_size d) (window_size d)
                      (nat ((int (length X) - window_size d) div step_size d)) = Inl e \<longrightarrow>
                   fst (fit L d X) = Inl e \<and> e = ValueError)
            \<and> (\<forall>y e. target_vector X (step_size d) (window_size d)
                        (nat ((int (length X) - window_size d) div step_size d)) = Inr y
                    \<and> gbr_fit L (gbr_init L)
                         (map (\<lambda>i. concat (take (nat (window_size d))
                                              (drop (nat (int i * step_size d)) X)))
                            [0..<nat ((int (length X) - window_size d) div step_size d)]) y
                        = Inl e \<longrightarrow>
                   fst (fit L d X) = Inl e)
            \<and> (\<forall>y m p. target_vector X (step_size d) (window_size d)
                          (nat ((int (length X) - window_size d) div step_size d)) = Inr y
                    \<and> gbr_fit L (gbr_init L)
                         (map (\<lambda>i. concat (take (nat (window_size d))
                                              (drop (nat (int i * step_size d)) X)))
                            [0..<nat ((int (length X) - window_size d) div step_size d)]) y
                        = Inr m
                    \<and> gbr_predict L m
                         (map (\<lambda>i. concat (take (nat (window_size d))
                                              (drop (nat (int i * step_size d)) X)))
                            [0..<nat ((int (length X) - window_size d) div step_size d)])
                        = Inr p
                    \<and> length p = nat ((int (length X) - window_size d) div step_size d) \<longrightarrow>
                   decision_scores (snd (fit L d X)) = Some (map2 (\<lambda>a b. \<bar>a - b\<bar>) y p)))
       \<and> (\<forall>m. gbr d = Some m \<longrightarrow>
              (\<forall>e. target_vector X (step_size d) (window_size d)
                      (nat ((int (length X) - window_size d) div step_size d)) = Inl e \<longrightarrow>
                   fst (decision_function L d X) = Inl e \<and> e = ValueError)
            \<and> (\<forall>y p. target_vector X (step_size d) (window_size d)
                        (nat ((int (length X) - window_size d) div step_size d)) = Inr y
                    \<and> gbr_predict L m
                         (map (\<lambda>i. concat (take (nat (window_size d))
                                              (drop (nat (int i * step_size d)) X)))
                            [0..<nat ((int (length X) - window_size d) div step_size d)])
                        = Inr p
                    \<and> length p = nat ((int (length X) - window_size d) div step_size d) \<longrightarrow>
                   fst (decision_function L d X) =
                     Inr (map2 (\<lambda>a b. \<bar>a - b\<bar>) y p,
                          map (\<lambda>i. int i * step_size d)
                            [0..<nat ((int (length X) - window_size d) div step_size d)],
                          map (\<lambda>i. int i * step_size d + window_size d)
                            [0..<nat ((int (length X) - window_size d) div step_size d)])))"
proof -
  let ?W = "window_size d" and ?S = "step_size d" and ?N = "int (length X)"
  let ?kept = "nat ((?N - ?W) div ?S)"
  let ?wins = "map (\<lambda>i. concat (take (nat ?W) (drop (nat (int i * ?S)) X))) [0..<?kept]"
  let ?tv = "target_vector X ?S ?W ?kept"
  have W0: "0 \<le> ?W" using assms(1) by simp
  from retained_windows[OF assms(2,3)] obtain subs lefts rights where
    win: "get_sub_matrices X ?W ?S = Inr (subs, lefts, rights)"
    and n: "length (butlast subs) = ?kept"
    and sb: "butlast subs = ?wins"
    and lf: "butlast lefts = map (\<lambda>i. int i * ?S) [0..<?kept]"
    and rt: "butlast rights = map (\<lambda>i. int i * ?S + ?W) [0..<?kept]"
    by blast
  have bounds: "list_all (\<lambda>i. 0 \<le> int i * ?S + ?W \<and> int i * ?S + ?W < ?N) [0..<?kept]"
    by (rule target_vector_in_bounds[OF assms(2) W0 assms(3)]) simp
  have a: "\<forall>i<?kept. 0 \<le> int i * ?S + ?W \<and> int i * ?S + ?W < ?N"
    using bounds by (simp add: list_all_iff)
  have b: "?tv \<noteq> Inl IndexError"
    unfolding target_vector_def by (rule build_targets_no_IndexError[OF bounds])
  have c: "length y = ?kept \<and> (\<forall>i<?kept. row_at X (int i * ?S + ?W) = Inr [y ! i])"
    if y: "?tv = Inr y" for y
  proof
    from y have bt: "build_targets X ?S ?W [0..<?kept] (replicate ?kept 0) = Inr y"
      by (simp add: target_vector_def)
    show "length y = ?kept" using target_vector_length[OF y] .
    show "\<forall>i<?kept. row_at X (int i * ?S + ?W) = Inr [y ! i]"
    proof (intro allI impI)
      fix i assume "i < ?kept"
      with build_targets_nth[OF bt, of i] show "row_at X (int i * ?S + ?W) = Inr [y ! i]"
        by simp
    qed
  qed
  have e: "\<exists>y. ?tv = Inr y" if "list_all (\<lambda>r. length r = 1) X"
    unfolding target_vector_def by (rule build_targets_univariate[OF bounds that])
  have err: "e = ValueError" if "?tv = Inl e" for e
  proof -
    from that have "e = IndexError \<or> e = ValueError"
      unfolding target_vector_def by (rule build_targets_error)
    with b that show ?thesis by auto
  qed
  have tvn: "target_vector X ?S ?W (length (butlast subs)) = ?tv" by (simp only: n)
  have f: "valid_len (snd (fit L d X)) = Some ?kept
         \<and> left_inds (snd (fit L d X)) = Some (map (\<lambda>i. int i * ?S) [0..<?kept])
         \<and> (\<forall>e. ?tv = Inl e \<longrightarrow> fst (fit L d X) = Inl e \<and> e = ValueError)
         \<and> (\<forall>y e. ?tv = Inr y \<and> gbr_fit L (gbr_init L) ?wins y = Inl e \<longrightarrow>
                fst (fit L d X) = Inl e)
         \<and> (\<forall>y m p. ?tv = Inr y \<and> gbr_fit L (gbr_init L) ?wins y = Inr m
                 \<and> gbr_predict L m ?wins = Inr p \<and> length p = ?kept \<longrightarrow>
                decision_scores (snd (fit L d X)) = Some (map2 (\<lambda>a b. \<bar>a - b\<bar>) y p))"
    if chk: "check_array X = Inr X"
  proof (intro conjI allI impI)
    show "valid_len (snd (fit L d X)) = Some ?kept"
      using fit_windows(3)[OF chk win, of L] n by (simp only:)
    show "left_inds (snd (fit L d X)) = Some (map (\<lambda>i. int i * ?S) [0..<?kept])"
      using fit_windows(1)[OF chk win, of L] lf by (simp only:)
  next
    fix e assume h: "?tv = Inl e"
    then have "target_vector X ?S ?W (length (butlast subs)) = Inl e" by (simp only: tvn)
    from fit_targets_fail[OF chk win this, of L] show "fst (fit L d X) = Inl e" by simp
    show "e = ValueError" using err[OF h] .
  next
    fix y e assume h: "?tv = Inr y \<and> gbr_fit L (gbr_init L) ?wins y = Inl e"
    then have y: "target_vector X ?S ?W (length (butlast subs)) = Inr y" by (simp only: tvn)
    from h have "gbr_fit L (gbr_init L) (butlast subs) y = Inl e" by (simp only: sb)
    from fit_after_targets(1)[OF chk win y this] show "fst (fit L d X) = Inl e" .
  next
    fix y m p
    assume h: "?tv = Inr y \<and> gbr_fit L (gbr_init L) ?wins y = Inr m
                 \<and> gbr_predict L m ?wins = Inr p \<and> length p = ?kept"
    then have y: "target_vector X ?S ?W (length (butlast subs)) = Inr y" by (simp only: tvn)
    from h have fm: "gbr_fit L (gbr_init L) (butlast subs) y = Inr m"
      and pm: "gbr_predict L m (butlast subs) = Inr p" by (simp_all only: sb)
    from h target_vector_length[of X ?S ?W ?kept y] have lp: "length p = length y" by simp
    from fit_after_targets(2)[OF chk win y fm pm lp]
    show "decision_scores (snd (fit L d X)) = Some (map2 (\<lambda>a b. \<bar>a - b\<bar>) y p)" .
  qed
  have g: "(\<forall>e. ?tv = Inl e \<longrightarrow> fst (decision_function L d X) = Inl e \<and> e = ValueError)
         \<and> (\<forall>y p. ?tv = Inr y \<and> gbr_predict L m ?wins = Inr p \<and> length p = ?kept \<longrightarrow>
                fst (decision_function L d X) =
                  Inr (map2 (\<lambda>a b. \<bar>a - b\<bar>) y p, map (\<lambda>i. int i * ?S) [0..<?kept],
                       map (\<lambda>i. int i * ?S + ?W) [0..<?kept]))"
    if gm: "gbr d = Some m" for m
  proof (intro conjI allI impI)
    fix e assume h: "?tv = Inl e"
    then have "target_vector X ?S ?W (length (butlast subs)) = Inl e" by (simp only: tvn)
    from decision_function_after_targets(1)[OF gm win this, of L]
    show "fst (decision_function L d X) = Inl e" by simp
    show "e = ValueError" using err[OF h] .
  next
    fix y p assume h: "?tv = Inr y \<and> gbr_predict L m ?wins = Inr p \<and> length p = ?kept"
    then have y: "target_vector X ?S ?W (length (butlast subs)) = Inr y" by (simp only: tvn)
    from h have pm: "gbr_predict L m (butlast subs) = Inr p" by (simp only: sb)
    from h target_vector_length[of X ?S ?W ?kept y] have lp: "length p = length y" by simp
    from decision_function_after_targets(2)[OF gm win y pm lp] lf rt
    show "fst (decision_function L d X) =
            Inr (map2 (\<lambda>a b. \<bar>a - b\<bar>) y p, map (\<lambda>i. int i * ?S) [0..<?kept],
                 map (\<lambda>i. int i * ?S + ?W) [0..<?kept])"
      by simp
  qed
  from a b c e f g show ?thesis by blast
qed

theorem targets_in_bounds_witness:
  "1 \<le> window_size clf \<and> 1 \<le> step_size clf \<and> window_size clf \<le> int (length X_train)
   \<and> check_array X_train = Inr X_train
   \<and> target_vector X_train (step_size clf) (window_size clf) 11
        = Inr [16, 18, 13, 22, 36, 59, 128, 62, 67, 78, 100]
   \<and> row_at X_train (int 10 * step_size clf + window_size clf) = Inr [100]
   \<and> fst (fit mean_regressor clf X_train) = Inr ()
   \<and> valid_len (snd (fit mean_regressor clf X_train)) = Some 11
   \<and> left_inds (snd (fit mean_regressor clf X_train)) = Some [0, 1, 2, 3, 4, 5, 6, 7, 8, 9, 10]
   \<and> decision_scores (snd (fit mean_regressor clf X_train))
        = Some [423 / 11, 401 / 11, 456 / 11, 357 / 11, 203 / 11, 50 / 11,
                809 / 11, 83 / 11, 138 / 11, 259 / 11, 501 / 11]
   \<and> 1 \<le> window_size clf_fitted \<and> 1 \<le> step_size clf_fitted
   \<and> window_size clf_fitted \<le> int (length X_test)
   \<and> target_vector X_test (step_size clf_fitted) (window_size clf_fitted) 8 \<noteq> Inl IndexError
   \<and> fst (decision_function mean_regressor clf_fitted X_test) =
        Inr ([2258 / 55, 703 / 22, 412 / 11, 1939 / 55, 2019 / 110, 798 / 11, 852 / 11, 261 / 55],
             [0, 1, 2, 3, 4, 5, 6, 7], [3, 4, 5, 6, 7, 8, 9, 10])"
proof -
  have w1: "1 \<le> window_size clf" and s1: "1 \<le> step_size clf"
    and n1: "window_size clf \<le> int (length X_train)"
    by (simp_all add: clf_fields length_X_train)
  have w2: "1 \<le> window_size clf_fitted" and s2: "1 \<le> step_size clf_fitted"
    and n2: "window_size clf_fitted \<le> int (length X_test)"
    by (simp_all add: clf_fitted_fields length_X_test)
  note t1 = targets_in_bounds[OF w1 s1 n1, of mean_regressor, unfolded kept_X_train]
  note t2 = targets_in_bounds[OF w2 s2 n2, of mean_regressor, unfolded kept_X_test]
  have tv: "target_vector X_train (step_size clf) (window_size clf) 11
        = Inr [16, 18, 13, 22, 36, 59, 128, 62, 67, 78, 100]"
    by (simp add: clf_fields targets_X_train)
  from t1[THEN conjunct2, THEN conjunct2, THEN conjunct1, rule_format, OF tv,
          THEN conjunct2, rule_format, of 10]
  have r: "row_at X_train (int 10 * step_size clf + window_size clf) = Inr [100]" by simp
  from t1[THEN conjunct2, THEN conjunct2, THEN conjunct2, THEN conjunct2, THEN conjunct1,
          rule_format, OF check_array_X_train, THEN conjunct1]
  have v: "valid_len (snd (fit mean_regressor clf X_train)) = Some 11" .
  have f: "fst (fit mean_regressor clf X_train) = Inr ()"
    and l: "left_inds (snd (fit mean_regressor clf X_train)) = Some [0, 1, 2, 3, 4, 5, 6, 7, 8, 9, 10]"
    and ds: "decision_scores (snd (fit mean_regressor clf X_train))
        = Some [423 / 11, 401 / 11, 456 / 11, 357 / 11, 203 / 11, 50 / 11,
                809 / 11, 83 / 11, 138 / 11, 259 / 11, 501 / 11]"
    by (simp_all add: fit_clf_X_train clf_fitted_def)
  from t2 have ni: "target_vector X_test (step_size clf_fitted) (window_size clf_fitted) 8
                      \<noteq> Inl IndexError"
    by (rule conjunct2[THEN conjunct1])
  have df: "fst (decision_function mean_regressor clf_fitted X_test) =
        Inr ([2258 / 55, 703 / 22, 412 / 11, 1939 / 55, 2019 / 110, 798 / 11, 852 / 11, 261 / 55],
             [0, 1, 2, 3, 4, 5, 6, 7], [3, 4, 5, 6, 7, 8, 9, 10])"
    by (simp add: decision_function_X_test)
  from w1 s1 n1 check_array_X_train tv r f v l ds w2 s2 n2 ni df show ?thesis by blast
qed

subsection \<open>C10: input with more than one column\<close>

lemma check_array_rows:
  assumes "check_array X = Inr X" "k < length X"
  shows "length (X ! k) = length (hd X)"
  using assms by (auto simp: check_array_def list_all_length split: if_splits)

lemma positive_retained:
  assumes "1 \<le> (S::int)" "1 \<le> (N - W) div S"
  shows "W < N"
proof -
  have "1 * S \<le> ((N - W) div S) * S"
    using assms by (intro mult_right_mono) simp_all
  moreover have "(N - W) div S * S + (N - W) mod S = N - W" by simp
  moreover have "0 \<le> (N - W) mod S" using assms(1) by simp
  ultimately show ?thesis using assms(1) by linarith
qed

lemma target_vector_multivariate:
  assumes S: "1 \<le> S" and W: "1 \<le> W" and n: "0 < n"
      and kept: "n \<le> nat ((int (length X) - W) div S)"
      and rows: "length (X ! nat W) \<noteq> 1"
  shows "target_vector X S W n = Inl ValueError"
proof -
  have pos: "1 \<le> (int (length X) - W) div S" using n kept by linarith
  have WN: "W \<le> int (length X)" using positive_retained[OF S pos] by simp
  have W0: "0 \<le> W" using W by simp
  have "int 0 < (int (length X) - W) div S" using pos by simp
  from retained_index_bound[OF S W0 WN this]
  have b: "0 \<le> int 0 * S + W" "int 0 * S + W < int (length X)" by simp_all
  have up: "[0..<n] = 0 # [1..<n]" using n by (simp add: upt_conv_Cons)
  from rows have rows': "length (X ! nat (int 0 * S + W)) \<noteq> 1" by simp
  show ?thesis
    unfolding target_vector_def up
    by (rule build_targets_multivariate[OF b rows'])
qed

text \<open>
  Claim C10. \<^verbatim>\<open>fit\<close> succeeds only on input with one column. On a well-formed input
  with more than one column that yields at least one retained window, for a detector
  with \<open>window_size \<ge> 1\<close> and \<open>step_size \<ge> 1\<close>, \<^verbatim>\<open>fit\<close> raises
  \<^verbatim>\<open>ValueError\<close> where the first target is stored: the slot takes one value and the
  row has several. The regressor is not created and no score, threshold or label is
  stored. \<^verbatim>\<open>decision_function\<close> of a detector that has a regressor raises the same
  error on such an input.
\<close>

theorem fit_rejects_multivariate:
  assumes "check_array X = Inr X" and "1 < length (hd X)"
      and "1 \<le> window_size d" and "1 \<le> step_size d"
      and "1 \<le> (int (length X) - window_size d) div step_size d"
  shows "fst (fit L d X) = Inl ValueError
       \<and> gbr (snd (fit L d X)) = gbr d
       \<and> decision_scores (snd (fit L d X)) = decision_scores d
       \<and> threshold (snd (fit L d X)) = threshold d
       \<and> labels (snd (fit L d X)) = labels d
       \<and> (gbr d = None \<or> fst (decision_function L d X) = Inl ValueError)"
proof -
  let ?W = "window_size d" and ?S = "step_size d" and ?N = "int (length X)"
  have "?W < ?N" using assms(4,5) by (rule positive_retained)
  then have WN: "?W \<le> ?N" by simp
  from \<open>?W < ?N\<close> have "nat ?W < length X" using assms(3) by linarith

  from check_array_rows[OF assms(1) this] assms(2)
  have rows: "length (X ! nat ?W) \<noteq> 1" by simp
  obtain subs lefts rights where
    win: "get_sub_matrices X ?W ?S = Inr (subs, lefts, rights)"
    using get_sub_matrices_ok[OF WN, of ?S] by blast
  have kept: "length (butlast subs) = nat ((?N - ?W) div ?S)"
    using trimmed_windows(1)[OF win] retained_count[OF assms(4) WN] by simp
  have pos: "0 < length (butlast subs)" using kept assms(5) by simp
  have tv: "target_vector X ?S ?W (length (butlast subs)) = Inl ValueError"
    by (rule target_vector_multivariate[OF assms(4) assms(3) pos _ rows]) (use kept in simp)
  note f = fit_targets_fail[OF assms(1) win tv, of L]
  have df: "gbr d = None \<or> fst (decision_function L d X) = Inl ValueError"
    using win tv by (cases "gbr d") (simp_all add: decision_function_def Let_def)
  from f df show ?thesis by simp
qed

theorem fit_rejects_multivariate_witness:
  "check_array [[1, 2], [2, 3], [3, 4]] = Inr [[1, 2], [2, 3], [3, 4]]
   \<and> 1 < length (hd [[1, 2], [2, 3], [3, 4 :: real]])
   \<and> 1 \<le> window_size (clf\<lparr>window_size := 1\<rparr>) \<and> 1 \<le> step_size (clf\<lparr>window_size := 1\<rparr>)
   \<and> 1 \<le> (int (length [[1, 2], [2, 3], [3, 4 :: real]]) - window_size (clf\<lparr>window_size := 1\<rparr>))
            div step_size (clf\<lparr>window_size := 1\<rparr>)
   \<and> fst (fit mean_regressor (clf\<lparr>window_size := 1\<rparr>) [[1, 2], [2, 3], [3, 4]]) = Inl ValueError"
  using fit_rejects_multivariate[of "[[1, 2], [2, 3], [3, 4]]" "clf\<lparr>window_size := 1\<rparr>" mean_regressor]
  by (simp add: check_array_def clf_fields)

subsection \<open>C8: inference leaves the detector as it was\<close>

text \<open>
  Claim C8. \<^verbatim>\<open>decision_function\<close> assigns no attribute: the detector after the call
  is the detector before it, with its regressor, scores, threshold, labels and index
  arrays. A second call with the same input therefore returns what the first returned.
  (The regressor's \<^verbatim>\<open>predict\<close> is a query in this model.) The same holds of
  \<^verbatim>\<open>predict\<close>.
\<close>

theorem decision_function_reads_only:
  "snd (decision_function L d X) = d
   \<and> fst (decision_function L (snd (decision_function L d X)) X) = fst (decision_function L d X)
   \<and> snd (predict L d X) = d
   \<and> fst (predict L (snd (predict L d X)) X) = fst (predict L d X)"
proof -
  have p: "snd (predict L d X) = d"
    using decision_function_state[of L d X]
    by (auto simp: predict_def split: option.splits sum.splits prod.splits)
  then show ?thesis by (simp add: decision_function_state)
qed

subsection \<open>C7: what the constructor validates\<close>

text \<open>
  Claim C7, as amended. The constructor fails exactly when the contamination is
  outside the open interval \<open>(0, 0.5)\<close>, with the \<open>ConfigurationError\<close> of the base
  class; a contamination of \<open>0.6\<close> is refused. \<^verbatim>\<open>window_size\<close> and \<^verbatim>\<open>step_size\<close>
  are stored as they are given: the constructor of \<^verbatim>\<open>GBRegOD\<close> does not look at
  them and does not pass them to the base class.
\<close>

theorem constructor_validates_contamination:
  "(GBRegOD_init w s c :: error + 'm detector) =
     (if 0 < c \<and> c < 1 / 2
      then Inr \<lparr> contamination = c, window_size = w, step_size = s,
                 left_inds = None, right_inds = None, valid_len = None, gbr = None,
                 decision_scores = None, threshold = None, labels = None \<rparr>
      else Inl ConfigurationError)
   \<and> (GBRegOD_init w s (6 / 10) :: error + 'm detector) = Inl ConfigurationError"
  by (simp add: GBRegOD_init_def CollectiveBaseDetector_init_def)

text \<open>The claim as it is written fails: a window size and a step size of 0 are
  accepted.\<close>

theorem constructor_accepts_window_size_0:
  "(GBRegOD_init 0 0 (1 / 10) :: error + (real option) detector) =
     Inr \<lparr> contamination = 1 / 10, window_size = 0, step_size = 0,
           left_inds = None, right_inds = None, valid_len = None, gbr = None,
           decision_scores = None, threshold = None, labels = None \<rparr>"
  by (simp add: GBRegOD_init_def CollectiveBaseDetector_init_def)

subsection \<open>C5: what a call of fit that raises leaves behind\<close>

lemma fit_multivariate_small:
  "fit mean_regressor (clf\<lparr>window_size := 1\<rparr>) [[1, 2], [2, 3], [3, 4]] =
     (Inl ValueError,
      clf\<lparr>window_size := 1, left_inds := Some [0, 1], right_inds := Some [1, 2],
           valid_len := Some 2\<rparr>)"
  by code_simp

lemma fit_no_windows_left:
  "fit mean_regressor clf [[1], [2], [3]] =
     (Inl ValueError,
      clf\<lparr>left_inds := Some [], right_inds := Some [], valid_len := Some 0,
           gbr := Some None\<rparr>)"
  by code_simp


text \<open>
  Claim C5, as amended. \<^verbatim>\<open>fit\<close> either returns, and then the index arrays,
  \<^verbatim>\<open>valid_len_\<close>, the regressor, the scores, the threshold and the labels are all
  set, or it raises, and then the threshold, the labels and the configuration are what
  they were before the call. When it raises before the windows are made (the input is
  malformed or shorter than the window) the detector is what it was.
\<close>

theorem fit_outcomes:
  assumes "fit L d X = (r, d')"
  shows "(case r of
            Inr u \<Rightarrow>
              (\<exists>li ri n m sc t ls.
                 left_inds d' = Some li \<and> right_inds d' = Some ri \<and> valid_len d' = Some n
               \<and> gbr d' = Some m \<and> decision_scores d' = Some sc
               \<and> threshold d' = Some t \<and> labels d' = Some ls)
          | Inl e \<Rightarrow>
              threshold d' = threshold d \<and> labels d' = labels d
            \<and> ((\<exists>w. check_array X = Inr X
                     \<and> get_sub_matrices X (window_size d) (step_size d) = Inr w)
               \<or> d' = d))
       \<and> contamination d' = contamination d
       \<and> window_size d' = window_size d \<and> step_size d' = step_size d"
proof -
  have cfg: "contamination d' = contamination d \<and> window_size d' = window_size d
           \<and> step_size d' = step_size d"
    using fit_config[of L d X] assms by simp
  show ?thesis
  proof (cases r)
    case (Inr u)
    with assms have "fit L d X = (Inr u, d')" by simp
    from fit_Inr[OF this] cfg Inr show ?thesis by auto
  next
    case (Inl e)
    with assms have f: "fit L d X = (Inl e, d')" by simp
    have "(\<exists>w. check_array X = Inr X
              \<and> get_sub_matrices X (window_size d) (step_size d) = Inr w) \<or> d' = d"
    proof (cases "check_array X")
      case (Inl e1)
      from fit_rejects(1)[OF this, of L d] f show ?thesis by simp
    next
      case (Inr X')
      with check_array_Inr[OF this] have chk: "check_array X = Inr X" by simp
      show ?thesis
      proof (cases "get_sub_matrices X (window_size d) (step_size d)")
        case (Inl e2)
        from fit_rejects(2)[OF chk this, of L] f show ?thesis by simp
      next
        case (Inr w)
        with chk show ?thesis by blast
      qed
    qed
    with fit_Inl[OF f] cfg Inl show ?thesis by simp
  qed
qed

theorem fit_outcomes_witness:
  "fit mean_regressor clf X_train = (Inr (), clf_fitted)
   \<and> threshold clf_fitted = Some (456 / 11)
   \<and> fit mean_regressor (clf\<lparr>window_size := 1\<rparr>) [[1, 2], [2, 3], [3, 4]] =
       (Inl ValueError,
        clf\<lparr>window_size := 1, left_inds := Some [0, 1], right_inds := Some [1, 2],
             valid_len := Some 2\<rparr>)
   \<and> threshold (clf\<lparr>window_size := 1, left_inds := Some [0, 1], right_inds := Some [1, 2],
             valid_len := Some 2\<rparr>) = threshold (clf\<lparr>window_size := 1\<rparr>)"
  using fit_outcomes[OF fit_clf_X_train] fit_outcomes[OF fit_multivariate_small]
    fit_clf_X_train fit_multivariate_small
  by (simp add: clf_fitted_fields)

text \<open>The claim as it is written fails: on an input with two columns \<^verbatim>\<open>fit\<close> raises
  after it has stored the index arrays and \<^verbatim>\<open>valid_len_\<close>, so the detector is not
  what it was before the call.\<close>

theorem fit_not_atomic:
  "GBRegOD_init 1 1 (1 / 5) = Inr (clf\<lparr>window_size := 1\<rparr>)
   \<and> left_inds (clf\<lparr>window_size := 1\<rparr>) = None
   \<and> fst (fit mean_regressor (clf\<lparr>window_size := 1\<rparr>) [[1, 2], [2, 3], [3, 4]]) = Inl ValueError
   \<and> left_inds (snd (fit mean_regressor (clf\<lparr>window_size := 1\<rparr>) [[1, 2], [2, 3], [3, 4]]))
        = Some [0, 1]
   \<and> right_inds (snd (fit mean_regressor (clf\<lparr>window_size := 1\<rparr>) [[1, 2], [2, 3], [3, 4]]))
        = Some [1, 2]
   \<and> valid_len (snd (fit mean_regressor (clf\<lparr>window_size := 1\<rparr>) [[1, 2], [2, 3], [3, 4]]))
        = Some 2"
  by (simp add: fit_multivariate_small clf_fields)
     (simp add: GBRegOD_init_def CollectiveBaseDetector_init_def clf_def)

subsection \<open>C6: inference before a successful fit\<close>

lemma GBRegOD_init_Inr:
  "GBRegOD_init w s c = Inr d \<Longrightarrow>
     gbr d = None \<and> decision_scores d = None \<and> threshold d = None \<and> labels d = None"
  by (auto simp: GBRegOD_init_def CollectiveBaseDetector_init_def split: if_splits)

lemma unfitted_no_threshold: "unfitted L d \<Longrightarrow> threshold d = None \<and> labels d = None"
proof (induction rule: unfitted.induct)
  case (constructed w s c d)
  then show ?case by (simp add: GBRegOD_init_Inr)
next
  case (failed_fit d X e d')
  with fit_Inl[OF failed_fit.hyps(2)] show ?case by simp
qed

lemma predict_needs_threshold:
  "threshold d = None \<Longrightarrow> predict L d X = (Inl NotFittedError, d)"
  by (simp add: predict_def split: option.splits)

lemma decision_function_needs_gbr:
  "gbr d = None \<Longrightarrow> decision_function L d X = (Inl NotFittedError, d)"
  by (simp add: decision_function_def)

lemma decision_function_two_columns:
  "decision_function mean_regressor
     (clf\<lparr>left_inds := Some [], right_inds := Some [], valid_len := Some 0, gbr := Some None\<rparr>)
     [[1, 2], [2, 3], [3, 4], [4, 5], [5, 6]] =
     (Inl ValueError,
      clf\<lparr>left_inds := Some [], right_inds := Some [], valid_len := Some 0, gbr := Some None\<rparr>)"
  by code_simp

lemma unfitted_clf: "unfitted L clf"
  by (rule unfitted.constructed[OF clf_constructed])

lemma unfitted_after_failed_fit:
  "unfitted mean_regressor
     (clf\<lparr>left_inds := Some [], right_inds := Some [], valid_len := Some 0, gbr := Some None\<rparr>)"
  by (rule unfitted.failed_fit[OF unfitted_clf fit_no_windows_left])

text \<open>
  What holds before a successful \<^verbatim>\<open>fit\<close>. On a detector on which \<^verbatim>\<open>fit\<close> has
  not been called with success (it has not been called, or every call raised),
  \<^verbatim>\<open>predict\<close> raises \<^verbatim>\<open>NotFittedError\<close>, whatever the input: its check asks
  for the attributes that only a successful \<^verbatim>\<open>fit\<close> sets. \<^verbatim>\<open>decision_function\<close>
  raises \<^verbatim>\<open>NotFittedError\<close> on a detector as the constructor returns it.
\<close>

lemma not_fitted_raises:
  assumes "unfitted L d"
  shows "fst (predict L d X) = Inl NotFittedError
       \<and> (gbr d = None \<longrightarrow> fst (decision_function L d X) = Inl NotFittedError)
       \<and> (\<forall>w s c d0. GBRegOD_init w s c = Inr d0 \<longrightarrow>
             fst (decision_function L d0 X) = Inl NotFittedError
           \<and> fst (predict L d0 X) = Inl NotFittedError)"
proof -
  from unfitted_no_threshold[OF assms] have "predict L d X = (Inl NotFittedError, d)"
    by (simp add: predict_needs_threshold)
  moreover have "fst (decision_function L d0 X) = Inl NotFittedError
               \<and> fst (predict L d0 X) = Inl NotFittedError"
    if "GBRegOD_init w s c = Inr d0" for w s c d0
    using GBRegOD_init_Inr[OF that]
    by (simp add: predict_needs_threshold decision_function_needs_gbr)
  ultimately show ?thesis by (simp add: decision_function_needs_gbr)
qed

text \<open>
  Claim C6. On a detector on which \<^verbatim>\<open>fit\<close> has not been called with success, every
  call of \<^verbatim>\<open>predict\<close> or \<^verbatim>\<open>decision_function\<close> is to raise
  \<^verbatim>\<open>NotFittedError\<close>. \<^verbatim>\<open>decision_function\<close> does not. On three samples and a
  window of three, \<^verbatim>\<open>fit\<close> keeps no window; it creates the regressor, assigns it
  to \<^verbatim>\<open>gbr_\<close> (line 98) and raises when the regressor refuses the empty training
  set (line 99). The check of \<^verbatim>\<open>decision_function\<close> (line 151) asks for
  \<^verbatim>\<open>gbr_\<close> only and passes: on an input with two columns the call goes on to the
  loop that builds the targets and raises its \<^verbatim>\<open>ValueError\<close>.
\<close>

theorem decision_function_after_failed_fit:
  "unfitted mean_regressor (snd (fit mean_regressor clf [[1], [2], [3]]))
   \<and> fst (fit mean_regressor clf [[1], [2], [3]]) = Inl ValueError
   \<and> fst (decision_function mean_regressor (snd (fit mean_regressor clf [[1], [2], [3]]))
            [[1, 2], [2, 3], [3, 4], [4, 5], [5, 6]]) = Inl ValueError
   \<and> fst (decision_function mean_regressor (snd (fit mean_regressor clf [[1], [2], [3]]))
            [[1, 2], [2, 3], [3, 4], [4, 5], [5, 6]]) \<noteq> Inl NotFittedError"
  by (simp add: fit_no_windows_left decision_function_two_columns unfitted_after_failed_fit)

subsection \<open>C4: the threshold and the labels\<close>

lemma binarize_nth:
  "i < length scores \<Longrightarrow> (binarize t scores ! i = 1) = (t < scores ! i)"
  "i < length scores \<Longrightarrow> (binarize t scores ! i = 0) = (\<not> t < scores ! i)"
  by (simp_all add: binarize_def)

lemma binarize_length: "length (binarize t scores) = length scores"
  by (simp add: binarize_def)

lemma fit_ties:
  "fit mean_regressor (clf\<lparr>window_size := 1\<rparr>) [[1], [1], [1], [1], [1], [1]] =
     (Inr (),
      clf\<lparr>window_size := 1, left_inds := Some [0, 1, 2, 3, 4], right_inds := Some [1, 2, 3, 4, 5],
           valid_len := Some 5, gbr := Some (Some 1), decision_scores := Some [0, 0, 0, 0, 0],
           threshold := Some 0, labels := Some [0, 0, 0, 0, 0]\<rparr>)"
  by code_simp

text \<open>
  Claim C4, as amended. After a successful \<^verbatim>\<open>fit\<close> on a training score vector
  \<open>S\<close> with a contamination \<open>c\<close> below 1, at most \<open>floor (len(S) * c)\<close> training
  scores strictly exceed the threshold, and exactly that many when the scores are
  pairwise different. There is one label for each score; it is 1 if and only if the
  score is strictly greater than the threshold, so a score equal to the threshold is
  labelled 0.
\<close>

theorem threshold_and_labels:
  assumes "fit L d X = (Inr u, d')" and "contamination d < 1"
  shows "\<exists>S t ls. decision_scores d' = Some S \<and> threshold d' = Some t \<and> labels d' = Some ls
           \<and> count_above t S \<le> nat \<lfloor>real (length S) * contamination d\<rfloor>
           \<and> (distinct S \<longrightarrow> count_above t S = nat \<lfloor>real (length S) * contamination d\<rfloor>)
           \<and> length ls = length S
           \<and> (\<forall>i<length S. (ls ! i = 1) = (S ! i > t) \<and> (ls ! i = 0) = (S ! i \<le> t))"
proof -
  from fit_Inr[OF assms(1)] obtain S t where
    q: "quantile_threshold S (contamination d) = Inr t"
    and s: "decision_scores d' = Some S"
    and t: "threshold d' = Some t"
    and l: "labels d' = Some (binarize t S)"
    by auto
  have "count_above t S \<le> nat \<lfloor>real (length S) * contamination d\<rfloor>"
    unfolding count_above_def using quantile_count_le[OF q assms(2)] by simp
  moreover have "count_above t S = nat \<lfloor>real (length S) * contamination d\<rfloor>" if "distinct S"
    unfolding count_above_def using quantile_count_distinct[OF q assms(2) that] by simp
  moreover have "length (binarize t S) = length S" by (rule binarize_length)
  moreover have "\<forall>i<length S. (binarize t S ! i = 1) = (S ! i > t)
                            \<and> (binarize t S ! i = 0) = (S ! i \<le> t)"
    by (auto simp: binarize_nth)
  ultimately show ?thesis using s t l by blast
qed

theorem threshold_and_labels_witness:
  "fit mean_regressor clf X_train = (Inr (), clf_fitted) \<and> contamination clf < 1
   \<and> count_above (456 / 11)
        [423 / 11, 401 / 11, 456 / 11, 357 / 11, 203 / 11, 50 / 11,
         809 / 11, 83 / 11, 138 / 11, 259 / 11, 501 / 11]
      \<le> nat \<lfloor>real (length [423 / 11, 401 / 11, 456 / 11, 357 / 11, 203 / 11, 50 / 11,
         809 / 11, 83 / 11, 138 / 11, 259 / 11, 501 / 11 :: real]) * contamination clf\<rfloor>"
proof -
  have c: "contamination clf < 1" by (simp add: clf_fields)
  from threshold_and_labels[OF fit_clf_X_train c] obtain S t where
    ds: "decision_scores clf_fitted = Some S" and th: "threshold clf_fitted = Some t"
    and le: "count_above t S \<le> nat \<lfloor>real (length S) * contamination clf\<rfloor>"
    by blast
  from ds have S: "S = [423 / 11, 401 / 11, 456 / 11, 357 / 11, 203 / 11, 50 / 11,
         809 / 11, 83 / 11, 138 / 11, 259 / 11, 501 / 11]"
    by (simp add: clf_fitted_def)
  from th have t: "t = 456 / 11" by (simp add: clf_fitted_def)
  note le[unfolded S t]
  with fit_clf_X_train c show ?thesis by blast
qed

text \<open>
  The claim as it is written fails when scores are tied at the threshold. On six equal
  samples, with a window of one, the five training scores are all 0 and the
  contamination is \<open>0.2\<close>: one score should exceed the threshold, and none does.
\<close>

theorem tied_scores_below_quota:
  "fst (fit mean_regressor (clf\<lparr>window_size := 1\<rparr>) [[1], [1], [1], [1], [1], [1]]) = Inr ()
   \<and> decision_scores (snd (fit mean_regressor (clf\<lparr>window_size := 1\<rparr>)
        [[1], [1], [1], [1], [1], [1]])) = Some [0, 0, 0, 0, 0]
   \<and> threshold (snd (fit mean_regressor (clf\<lparr>window_size := 1\<rparr>)
        [[1], [1], [1], [1], [1], [1]])) = Some 0
   \<and> count_above 0 [0, 0, 0, 0, 0] = 0
   \<and> nat \<lfloor>real (length [0, 0, 0, 0, 0 :: real]) * contamination (clf\<lparr>window_size := 1\<rparr>)\<rfloor> = 1"
  by (simp add: fit_ties count_above_def clf_fields)

subsection \<open>C1: the padding of predict\<close>

lemma fit_threshold_nonneg:
  assumes "fit L d X = (Inr u, d')"
  shows "\<exists>ds t ls. decision_scores d' = Some ds \<and> threshold d' = Some t \<and> labels d' = Some ls
           \<and> 0 \<le> t"
proof -
  from fit_Inr[OF assms] obtain y p scores t where
    r: "abs_residuals y p = Inr scores"
    and q: "quantile_threshold scores (contamination d) = Inr t"
    and s: "decision_scores d' = Some scores" "threshold d' = Some t"
           "labels d' = Some (binarize t scores)"
    by auto
  from quantile_threshold_Inr[OF q] have "t \<in> set scores" by blast
  with abs_residuals_nonneg[OF r] have "0 \<le> t" by (simp add: list_all_iff)
  with s show ?thesis by blast
qed

lemma decision_function_lengths:
  assumes "decision_function L d X = (Inr (sc, li, ri), d')"
      and "1 \<le> step_size d" and "one_per_row L"
  shows "length sc = nat ((int (length X) - window_size d) div step_size d)"
    and "length li = nat ((int (length X) - window_size d) div step_size d)"
    and "length ri = nat ((int (length X) - window_size d) div step_size d)"
    and "window_size d \<le> int (length X)"
proof -
  from decision_function_Inr[OF assms(1)] obtain subs lefts rights y m p where
    win: "get_sub_matrices X (window_size d) (step_size d) = Inr (subs, lefts, rights)"
    and y: "target_vector X (step_size d) (window_size d) (length (butlast subs)) = Inr y"
    and p: "gbr_predict L m (butlast subs) = Inr p"
    and sc: "abs_residuals y p = Inr sc"
    and li: "li = butlast lefts" and ri: "ri = butlast rights"
    by blast
  show WN: "window_size d \<le> int (length X)" by (rule get_sub_matrices_Inr(1)[OF win])
  note kept = retained_count[OF assms(2) WN]
  from trimmed_windows[OF win] li ri kept
  show "length li = nat ((int (length X) - window_size d) div step_size d)"
    and "length ri = nat ((int (length X) - window_size d) div step_size d)"
    by simp_all
  from y have "length y = length (butlast subs)"
    by (auto simp: target_vector_def dest: build_targets_length)
  moreover from p assms(3) have "length p = length (butlast subs)"
    by (simp add: one_per_row_def)
  ultimately have "length sc = length (butlast subs)"
    using abs_residuals_length[OF sc] by simp
  with trimmed_windows(1)[OF win] kept
  show "length sc = nat ((int (length X) - window_size d) div step_size d)" by simp
qed

lemma predict_fitted:
  assumes "decision_scores d = Some ds" "threshold d = Some t" "labels d = Some ls"
      and "0 \<le> window_size d"
  shows "predict L d X =
           (case fst (decision_function L d X) of
              Inl e \<Rightarrow> (Inl e, d)
            | Inr (sc, l, r) \<Rightarrow>
                (Inr (binarize t (replicate (nat (window_size d)) 0 @ sc),
                      replicate (nat (window_size d)) 0 @ map real_of_int l,
                      replicate (nat (window_size d)) 0 @ map real_of_int r), d))"
proof -
  obtain res where df: "decision_function L d X = (res, d)"
    using decision_function_state[of L d X] by (cases "decision_function L d X") simp
  show ?thesis
    using assms by (simp add: predict_def df np_zeros_def split: sum.splits prod.splits)
qed

lemma binarize_zeros: "0 \<le> t \<Longrightarrow> binarize t (replicate n 0 @ sc) = replicate n 0 @ binarize t sc"
  by (simp add: binarize_def)

lemma fit_stride_two:
  "fit mean_regressor (clf\<lparr>window_size := 1, step_size := 2\<rparr>) [[1], [2], [3], [4], [5]] =
     (Inr (),
      clf\<lparr>window_size := 1, step_size := 2, left_inds := Some [0, 2],
           right_inds := Some [1, 3], valid_len := Some 2, gbr := Some (Some 3),
           decision_scores := Some [1, 1], threshold := Some 1, labels := Some [0, 0]\<rparr>)"
  by code_simp

lemma predict_stride_two:
  "predict mean_regressor
     (clf\<lparr>window_size := 1, step_size := 2, left_inds := Some [0, 2],
          right_inds := Some [1, 3], valid_len := Some 2, gbr := Some (Some 3),
          decision_scores := Some [1, 1], threshold := Some 1, labels := Some [0, 0]\<rparr>)
     [[1], [2], [3], [4], [5]] =
     (Inr ([0, 0, 0], [0, 0, 2], [0, 1, 3]),
      clf\<lparr>window_size := 1, step_size := 2, left_inds := Some [0, 2],
           right_inds := Some [1, 3], valid_len := Some 2, gbr := Some (Some 3),
           decision_scores := Some [1, 1], threshold := Some 1, labels := Some [0, 0]\<rparr>)"
  by code_simp

text \<open>
  With the default stride the padding does what it is there for. On a fitted detector
  with \<open>window_size \<ge> 1\<close> and \<open>step_size = 1\<close>, over a regressor that predicts one
  value per row, whenever \<^verbatim>\<open>decision_function\<close> returns, \<^verbatim>\<open>predict\<close> returns its
  three arrays with \<open>window_size\<close> zeros in front, the scores compared with the
  threshold: the first \<open>window_size\<close> labels are 0 and each array has one entry for
  each row of the input.
\<close>

lemma predict_unit_stride:
  assumes "fit L d0 X0 = (Inr u, d)"
      and "1 \<le> window_size d" and "step_size d = 1" and "one_per_row L"
      and "fst (decision_function L d X) = Inr (sc, l, r)"
  shows "\<exists>t lab li ri.
           threshold d = Some t
         \<and> fst (predict L d X) = Inr (lab, li, ri)
         \<and> lab = binarize t (replicate (nat (window_size d)) 0 @ sc)
         \<and> li = replicate (nat (window_size d)) 0 @ map real_of_int l
         \<and> ri = replicate (nat (window_size d)) 0 @ map real_of_int r
         \<and> take (nat (window_size d)) lab = replicate (nat (window_size d)) 0
         \<and> length lab = length X \<and> length li = length X \<and> length ri = length X"
proof -
  let ?W = "window_size d" and ?N = "int (length X)"
  from fit_threshold_nonneg[OF assms(1)] obtain ds t ls where
    f: "decision_scores d = Some ds" "threshold d = Some t" "labels d = Some ls"
    and t0: "0 \<le> t"
    by blast
  have W0: "0 \<le> ?W" using assms(2) by simp
  have S1: "1 \<le> step_size d" using assms(3) by simp
  have df: "decision_function L d X = (Inr (sc, l, r), d)"
    using assms(5) decision_function_state[of L d X]
    by (cases "decision_function L d X") simp
  note len = decision_function_lengths[OF df S1 assms(4)]
  let ?z = "replicate (nat ?W) (0::real)"
  let ?lab = "binarize t (?z @ sc)"
  have pr: "fst (predict L d X) = Inr (?lab, ?z @ map real_of_int l, ?z @ map real_of_int r)"
    using predict_fitted[OF f W0, of L X] assms(5) by simp
  have lab: "?lab = replicate (nat ?W) 0 @ binarize t sc"
    using t0 by (rule binarize_zeros)
  have tk: "take (nat ?W) ?lab = replicate (nat ?W) 0"
    unfolding lab by simp
  have kept: "nat ?W + nat ((?N - ?W) div step_size d) = length X"
    using assms(3) len(4) W0 by simp
  have l1: "length ?lab = length X"
    using len(1) kept by (simp add: binarize_length)
  have l2: "length (?z @ map real_of_int l) = length X"
    and l3: "length (?z @ map real_of_int r) = length X"
    using len(2,3) kept by simp_all
  from f(2) pr tk l1 l2 l3 show ?thesis by blast
qed

text \<open>
  Claim C1. \<^verbatim>\<open>predict\<close> is to return arrays with one entry for each row of its
  input, the result of \<^verbatim>\<open>decision_function\<close> with \<open>window_size\<close> zeros in front,
  the first \<open>window_size\<close> entries being 0 and labelled 0; the docstring of
  \<^verbatim>\<open>predict\<close> promises the same shape, \<open>(n_samples,)\<close>. The zeros are there and
  are labelled 0, but the padding of lines 126-128 makes up for the window only, not
  for the stride. With a window of one and a stride of two, five samples give three
  windows, two after the trim, and \<^verbatim>\<open>predict\<close> on the five samples returns arrays
  of three entries.
\<close>

theorem predict_shorter_than_input:
  "fst (fit mean_regressor (clf\<lparr>window_size := 1, step_size := 2\<rparr>)
          [[1], [2], [3], [4], [5]]) = Inr ()
   \<and> fst (predict mean_regressor
            (snd (fit mean_regressor (clf\<lparr>window_size := 1, step_size := 2\<rparr>)
                    [[1], [2], [3], [4], [5]]))
            [[1], [2], [3], [4], [5]])
        = Inr ([0, 0, 0], [0, 0, 2], [0, 1, 3])
   \<and> length [0, 0, 0 :: int] = 3
   \<and> length [[1], [2], [3], [4], [5 :: real]] = 5"
  by (simp add: fit_stride_two predict_stride_two)

end
